theory Spec2Isabelle
  imports Main "HOL-Library.Sublist"
begin

section \<open>Seed database generator (tools/generate-seed-db.py)\<close>

text \<open>
  The script creates a SQLite database with four tables, inserts fixed rows and writes
  the plaintext bootstrap API key to a second file. Everything it does goes through three
  libraries: \<^verbatim>\<open>pathlib\<close> (the filesystem), \<^verbatim>\<open>sqlite3\<close> and \<^verbatim>\<open>bcrypt\<close>. The filesystem and
  the database are modelled as explicit state; \<^verbatim>\<open>bcrypt\<close> is a parameter of the run.
\<close>

subsection \<open>Module constants\<close>

definition BOOTSTRAP_API_KEY_ID :: string where
  "BOOTSTRAP_API_KEY_ID = ''halos-bootstrap''"

definition BOOTSTRAP_API_KEY_TOKEN :: string where
  "BOOTSTRAP_API_KEY_TOKEN = ''halos-bootstrap-rotate-me-on-first-boot-abc123''"

definition SERVICE_USER_ID :: string where
  "SERVICE_USER_ID = ''halos-service''"

subsection \<open>SQLite: tables, rows and the two statements the script executes\<close>

datatype sqlval = SqlNull | SqlText string | SqlInt int

datatype coltype = TEXT | INTEGER

datatype constraint =
    PRIMARY_KEY
  | NOT_NULL
  | UNIQUE
  | DEFAULT sqlval
  | REFERENCES_ON_DELETE_CASCADE string string

datatype column = Column string coltype "constraint list"

fun column_name :: "column \<Rightarrow> string" where
  "column_name (Column n t cs) = n"

fun constraints :: "column \<Rightarrow> constraint list" where
  "constraints (Column n t cs) = cs"

text \<open>A row gives every column of its table a value, in the order of the columns.\<close>

type_synonym row = "(string \<times> sqlval) list"

record table =
  columns :: "column list"
  rows :: "row list"

text \<open>A database is its tables by name, in the order of their creation.\<close>

type_synonym database = "(string \<times> table) list"

datatype error =
    FileExistsError "string list"
  | FileNotFoundError "string list"
  | NotADirectoryError "string list"
  | IsADirectoryError "string list"
  | PermissionError "string list"
  | OperationalError string
  | IntegrityError string
  | DatabaseError string

definition rows_of :: "database \<Rightarrow> string \<Rightarrow> row list" where
  "rows_of db t = (case map_of db t of None \<Rightarrow> [] | Some tb \<Rightarrow> rows tb)"

text \<open>\<^verbatim>\<open>CREATE TABLE IF NOT EXISTS\<close>: a table of that name is left as it is.\<close>

definition create_table_if_not_exists :: "string \<Rightarrow> column list \<Rightarrow> database \<Rightarrow> database" where
  "create_table_if_not_exists name cols db =
     (case map_of db name of
        Some tb \<Rightarrow> db
      | None \<Rightarrow> db @ [(name, \<lparr>columns = cols, rows = []\<rparr>)])"

fun default_of :: "constraint list \<Rightarrow> sqlval" where
  "default_of [] = SqlNull"
| "default_of (DEFAULT v # cs) = v"
| "default_of (c # cs) = default_of cs"

text \<open>The row an \<^verbatim>\<open>INSERT\<close> builds: the given value of a named column, its default otherwise.\<close>

definition build_row :: "column list \<Rightarrow> string list \<Rightarrow> sqlval list \<Rightarrow> row" where
  "build_row cols names vals =
     map (\<lambda>c. (column_name c,
                (case map_of (zip names vals) (column_name c) of
                   Some v \<Rightarrow> v
                 | None \<Rightarrow> default_of (constraints c)))) cols"

definition value_of :: "row \<Rightarrow> string \<Rightarrow> sqlval" where
  "value_of r c = (case map_of r c of None \<Rightarrow> SqlNull | Some v \<Rightarrow> v)"

definition violates_not_null :: "column \<Rightarrow> row \<Rightarrow> bool" where
  "violates_not_null c r = (NOT_NULL \<in> set (constraints c) \<and> value_of r (column_name c) = SqlNull)"

text \<open>A primary key or unique column holds no value twice; SQLite counts NULLs as distinct.\<close>

definition violates_unique :: "column \<Rightarrow> row list \<Rightarrow> row \<Rightarrow> bool" where
  "violates_unique c old r =
     ((PRIMARY_KEY \<in> set (constraints c) \<or> UNIQUE \<in> set (constraints c))
      \<and> value_of r (column_name c) \<noteq> SqlNull
      \<and> value_of r (column_name c) \<in> set (map (\<lambda>r'. value_of r' (column_name c)) old))"

definition replace_table :: "string \<Rightarrow> table \<Rightarrow> database \<Rightarrow> database" where
  "replace_table name tb db = map (\<lambda>(n, t). if n = name then (n, tb) else (n, t)) db"

text \<open>
  \<^verbatim>\<open>INSERT INTO t (names) VALUES (vals)\<close>. SQLite does not enforce foreign keys unless the
  connection turns them on, which the script does not.
\<close>

definition insert_into :: "string \<Rightarrow> string list \<Rightarrow> sqlval list \<Rightarrow> database \<Rightarrow> error + database" where
  "insert_into name names vals db =
     (case map_of db name of
        None \<Rightarrow> Inl (OperationalError (''no such table: '' @ name))
      | Some tb \<Rightarrow>
          if \<not> list_all (\<lambda>n. n \<in> set (map column_name (columns tb))) names
          then Inl (OperationalError (''table '' @ name @ '' has no column of that name''))
          else
            (let r = build_row (columns tb) names vals in
             if list_ex (\<lambda>c. violates_not_null c r) (columns tb)
             then Inl (IntegrityError (''NOT NULL constraint failed: '' @ name))
             else if list_ex (\<lambda>c. violates_unique c (rows tb) r) (columns tb)
             then Inl (IntegrityError (''UNIQUE constraint failed: '' @ name))
             else Inr (replace_table name (tb\<lparr>rows := rows tb @ [r]\<rparr>) db)))"

subsection \<open>The filesystem\<close>

text \<open>
  A path is the list of its components below the root of the tree (the working
  directory for the relative paths the script defaults to); \<open>[]\<close> is that root. A file
  holds text or a SQLite database. \<open>readonly\<close> holds the paths the operating system
  refuses to modify: no entry is created in or removed from such a directory, and such
  a file is not opened for writing.
\<close>

type_synonym path = "string list"

datatype content = TextFile string | SqliteFile database

datatype node = Dir | Reg content

record filesystem =
  nodes :: "path \<Rightarrow> node option"
  readonly :: "path set"

text \<open>\<^verbatim>\<open>Path.parent\<close>: the parent of the root is the root.\<close>

definition parent :: "path \<Rightarrow> path" where
  "parent p = butlast p"

text \<open>\<^verbatim>\<open>str(path)\<close>.\<close>

fun join_path :: "path \<Rightarrow> string" where
  "join_path [] = []"
| "join_path [c] = c"
| "join_path (c # cs) = c @ ''/'' @ join_path cs"

definition str_path :: "path \<Rightarrow> string" where
  "str_path p = (if p = [] then ''.'' else join_path p)"

subsection \<open>State and exceptions\<close>

text \<open>
  The state of a run is the filesystem and what was printed to standard output. A
  statement either returns a value or raises; in both cases it leaves a state.
\<close>

record process =
  fs :: filesystem
  stdout :: "string list"

type_synonym 'a io = "process \<Rightarrow> (error + 'a) \<times> process"

definition return :: "'a \<Rightarrow> 'a io" where
  "return x = (\<lambda>s. (Inr x, s))"

definition raise :: "error \<Rightarrow> 'a io" where
  "raise e = (\<lambda>s. (Inl e, s))"

definition bind :: "'a io \<Rightarrow> ('a \<Rightarrow> 'b io) \<Rightarrow> 'b io" where
  "bind m f = (\<lambda>s. case m s of (Inl e, s') \<Rightarrow> (Inl e, s') | (Inr x, s') \<Rightarrow> f x s')"

text \<open>\<^verbatim>\<open>try: m finally: c\<close>: \<open>c\<close> runs on both paths; an exception of \<open>c\<close> replaces the outcome.\<close>

definition try_finally :: "'a io \<Rightarrow> unit io \<Rightarrow> 'a io" where
  "try_finally m c =
     (\<lambda>s. case m s of (r, s') \<Rightarrow>
        (case c s' of (Inl e, s'') \<Rightarrow> (Inl e, s'') | (Inr u, s'') \<Rightarrow> (r, s'')))"

definition print :: "string \<Rightarrow> unit io" where
  "print line = (\<lambda>s. (Inr (), s\<lparr>stdout := stdout s @ [line]\<rparr>))"

text \<open>A system call: it fails and changes nothing, or it returns with a new filesystem.\<close>

definition syscall :: "(filesystem \<Rightarrow> error + 'a \<times> filesystem) \<Rightarrow> 'a io" where
  "syscall f = (\<lambda>s. case f (fs s) of Inl e \<Rightarrow> (Inl e, s) | Inr (x, fs') \<Rightarrow> (Inr x, s\<lparr>fs := fs'\<rparr>))"

subsection \<open>What the script uses of os and pathlib\<close>

text \<open>\<^verbatim>\<open>os.mkdir\<close>. What was just created is writable, here and below.\<close>

definition os_mkdir :: "path \<Rightarrow> unit io" where
  "os_mkdir p = syscall (\<lambda>f.
     if nodes f p \<noteq> None then Inl (FileExistsError p)
     else (case nodes f (parent p) of
        None \<Rightarrow> Inl (FileNotFoundError p)
      | Some (Reg c) \<Rightarrow> Inl (NotADirectoryError p)
      | Some Dir \<Rightarrow>
          if parent p \<in> readonly f then Inl (PermissionError p)
          else Inr ((), f\<lparr>nodes := (nodes f)(p \<mapsto> Dir), readonly := readonly f - {p}\<rparr>)))"

definition is_dir :: "path \<Rightarrow> bool io" where
  "is_dir p = syscall (\<lambda>f. Inr (nodes f p = Some Dir, f))"

definition exists :: "path \<Rightarrow> bool io" where
  "exists p = syscall (\<lambda>f. Inr (nodes f p \<noteq> None, f))"

text \<open>
  \<^verbatim>\<open>Path.mkdir(parents=False, exist_ok=...)\<close>: every error of \<^verbatim>\<open>os.mkdir\<close> but a missing
  parent is forgiven when \<open>exist_ok\<close> holds and the path is a directory.
\<close>

definition mkdir_single :: "path \<Rightarrow> bool \<Rightarrow> unit io" where
  "mkdir_single p exist_ok =
     (\<lambda>s. case os_mkdir p s of
        (Inr u, s') \<Rightarrow> (Inr u, s')
      | (Inl (FileNotFoundError q), s') \<Rightarrow> (Inl (FileNotFoundError q), s')
      | (Inl e, s') \<Rightarrow>
          (if \<not> exist_ok then (Inl e, s')
           else bind (is_dir p) (\<lambda>d. if d then return () else raise e) s'))"

text \<open>
  \<^verbatim>\<open>Path.mkdir(parents=True, exist_ok=True)\<close>, the call of the script: when the parent is
  missing it is made first (with its own parents), then the directory itself.
\<close>

function mkdir_parents :: "path \<Rightarrow> unit io" where
  "mkdir_parents p =
     (\<lambda>s. case os_mkdir p s of
        (Inr u, s') \<Rightarrow> (Inr u, s')
      | (Inl (FileNotFoundError q), s') \<Rightarrow>
          (if parent p = p then (Inl (FileNotFoundError q), s')
           else bind (mkdir_parents (parent p)) (\<lambda>u. mkdir_single p True) s')
      | (Inl e, s') \<Rightarrow> bind (is_dir p) (\<lambda>d. if d then return () else raise e) s')"
  by pat_completeness auto
termination
  by (relation "measure length") (auto simp: parent_def butlast_conv_take)

text \<open>\<^verbatim>\<open>Path.unlink()\<close>.\<close>

definition unlink :: "path \<Rightarrow> unit io" where
  "unlink p = syscall (\<lambda>f.
     case nodes f p of
       None \<Rightarrow> Inl (FileNotFoundError p)
     | Some n \<Rightarrow>
         if parent p \<in> readonly f then Inl (PermissionError p)
         else if n = Dir then Inl (IsADirectoryError p)
         else Inr ((), f\<lparr>nodes := (nodes f)(p := None)\<rparr>))"

text \<open>\<^verbatim>\<open>Path.write_text(data)\<close>: the file is created, or opened for writing and replaced.\<close>

definition write_text :: "path \<Rightarrow> string \<Rightarrow> unit io" where
  "write_text p data = syscall (\<lambda>f.
     case nodes f p of
       Some Dir \<Rightarrow> Inl (IsADirectoryError p)
     | Some (Reg c) \<Rightarrow>
         if p \<in> readonly f then Inl (PermissionError p)
         else Inr ((), f\<lparr>nodes := (nodes f)(p \<mapsto> Reg (TextFile data))\<rparr>)
     | None \<Rightarrow>
         (case nodes f (parent p) of
            None \<Rightarrow> Inl (FileNotFoundError p)
          | Some (Reg c) \<Rightarrow> Inl (NotADirectoryError p)
          | Some Dir \<Rightarrow>
              if parent p \<in> readonly f then Inl (PermissionError p)
              else Inr ((), f\<lparr>nodes := (nodes f)(p \<mapsto> Reg (TextFile data)),
                              readonly := readonly f - {p}\<rparr>)))"

subsection \<open>What the script uses of sqlite3\<close>

text \<open>
  A connection knows its file, the database as the connection sees it (with the changes
  not yet committed) and whether a transaction is open. The \<^verbatim>\<open>sqlite3\<close> module opens a
  transaction before an \<^verbatim>\<open>INSERT\<close> and none before a \<^verbatim>\<open>CREATE TABLE\<close>, which SQLite then
  commits by itself.
\<close>

record connection =
  conn_path :: path
  conn_db :: database
  in_transaction :: bool

text \<open>
  \<^verbatim>\<open>sqlite3.connect(path)\<close> opens the file and creates it when it is missing. An empty file
  is an empty database. (For a file that is no database SQLite raises at the first
  statement rather than here; the script connects only after it has removed the file.)
\<close>

definition sqlite3_connect :: "path \<Rightarrow> connection io" where
  "sqlite3_connect p = syscall (\<lambda>f.
     case nodes f p of
       Some Dir \<Rightarrow> Inl (OperationalError ''unable to open database file'')
     | Some (Reg (SqliteFile db)) \<Rightarrow>
         Inr (\<lparr>conn_path = p, conn_db = db, in_transaction = False\<rparr>, f)
     | Some (Reg (TextFile t)) \<Rightarrow>
         if t = [] then Inr (\<lparr>conn_path = p, conn_db = [], in_transaction = False\<rparr>, f)
         else Inl (DatabaseError ''file is not a database'')
     | None \<Rightarrow>
         if nodes f (parent p) = Some Dir \<and> parent p \<notin> readonly f
         then Inr (\<lparr>conn_path = p, conn_db = [], in_transaction = False\<rparr>,
                   f\<lparr>nodes := (nodes f)(p \<mapsto> Reg (SqliteFile [])), readonly := readonly f - {p}\<rparr>)
         else Inl (OperationalError ''unable to open database file''))"

text \<open>Writing the connection's view of the database to its file.\<close>

definition write_database :: "connection \<Rightarrow> unit io" where
  "write_database conn = syscall (\<lambda>f.
     Inr ((), f\<lparr>nodes := (nodes f)(conn_path conn \<mapsto> Reg (SqliteFile (conn_db conn)))\<rparr>))"

definition execute_create_table :: "connection \<Rightarrow> string \<Rightarrow> column list \<Rightarrow> connection io" where
  "execute_create_table conn name cols =
     (let conn' = conn\<lparr>conn_db := create_table_if_not_exists name cols (conn_db conn)\<rparr> in
      if in_transaction conn then return conn'
      else bind (write_database conn') (\<lambda>u. return conn'))"

definition execute_insert :: "connection \<Rightarrow> string \<Rightarrow> string list \<Rightarrow> sqlval list \<Rightarrow> connection io" where
  "execute_insert conn name names vals =
     (case insert_into name names vals (conn_db conn) of
        Inl e \<Rightarrow> raise e
      | Inr db \<Rightarrow> return (conn\<lparr>conn_db := db, in_transaction := True\<rparr>))"

definition commit :: "connection \<Rightarrow> connection io" where
  "commit conn =
     (if in_transaction conn
      then bind (write_database conn) (\<lambda>u. return (conn\<lparr>in_transaction := False\<rparr>))
      else return conn)"

text \<open>\<^verbatim>\<open>conn.close()\<close>: what was not committed is gone, the file stays as it is.\<close>

definition close :: "connection \<Rightarrow> unit io" where
  "close conn = return ()"

subsection \<open>What the script uses of json and bcrypt\<close>

datatype json = JBool bool | JObject "(string \<times> json) list"

definition hex_digit :: "nat \<Rightarrow> char" where
  "hex_digit n = ''0123456789abcdef'' ! (n mod 16)"

text \<open>
  The escapes of \<^verbatim>\<open>json.dumps\<close> with \<^verbatim>\<open>ensure_ascii\<close>: the quote, the backslash, the short
  escapes of the control characters, \<^verbatim>\<open>\u00XX\<close> for what else is not printable ASCII.
\<close>

definition escape_char :: "char \<Rightarrow> string" where
  "escape_char c =
     (if c = CHR 0x22 then [CHR 0x5C, CHR 0x22]
      else if c = CHR 0x5C then [CHR 0x5C, CHR 0x5C]
      else if c = CHR 0x0A then [CHR 0x5C, CHR ''n'']
      else if c = CHR 0x0D then [CHR 0x5C, CHR ''r'']
      else if c = CHR 0x09 then [CHR 0x5C, CHR ''t'']
      else if c = CHR 0x08 then [CHR 0x5C, CHR ''b'']
      else if c = CHR 0x0C then [CHR 0x5C, CHR ''f'']
      else if (of_char c :: nat) < 32 \<or> 126 < (of_char c :: nat)
      then [CHR 0x5C, CHR ''u'', CHR ''0'', CHR ''0'',
            hex_digit (of_char c div 16), hex_digit (of_char c mod 16)]
      else [c])"

definition encode_string :: "string \<Rightarrow> string" where
  "encode_string k = [CHR 0x22] @ concat (map escape_char k) @ [CHR 0x22]"

text \<open>\<^verbatim>\<open>json.dumps\<close> with its default separators; a dict keeps the order of its keys.\<close>

fun json_dumps :: "json \<Rightarrow> string" and dumps_items :: "(string \<times> json) list \<Rightarrow> string" where
  "json_dumps (JBool b) = (if b then ''true'' else ''false'')"
| "json_dumps (JObject kvs) = ''{'' @ dumps_items kvs @ ''}''"
| "dumps_items [] = []"
| "dumps_items [(k, v)] = encode_string k @ '': '' @ json_dumps v"
| "dumps_items ((k, v) # kvs) = encode_string k @ '': '' @ json_dumps v @ '', '' @ dumps_items kvs"

text \<open>
  The \<^verbatim>\<open>bcrypt\<close> module of a run: the salt \<^verbatim>\<open>gensalt(rounds)\<close> draws in this run, and
  \<^verbatim>\<open>hashpw(password, salt)\<close>. Strings stand for the ASCII bytes the module works on.
\<close>

record bcrypt_module =
  gensalt :: "nat \<Rightarrow> string"
  hashpw :: "string \<Rightarrow> string \<Rightarrow> string"

subsection \<open>The script\<close>

definition create_tables :: "connection \<Rightarrow> connection io" where
  "create_tables conn =
     bind (execute_create_table conn ''onboarding''
       [Column ''id'' TEXT [PRIMARY_KEY, NOT_NULL],
        Column ''step'' TEXT [NOT_NULL],
        Column ''previousStep'' TEXT []]) (\<lambda>conn.
     bind (execute_create_table conn ''user''
       [Column ''id'' TEXT [PRIMARY_KEY, NOT_NULL],
        Column ''name'' TEXT [],
        Column ''email'' TEXT [],
        Column ''emailVerified'' INTEGER [],
        Column ''image'' TEXT [],
        Column ''password'' TEXT [],
        Column ''salt'' TEXT [],
        Column ''provider'' TEXT [DEFAULT (SqlText ''credentials'')],
        Column ''homeBoardId'' TEXT [],
        Column ''mobileHomeBoardId'' TEXT [],
        Column ''defaultSearchEngineId'' TEXT [],
        Column ''openSearchInNewTab'' INTEGER [DEFAULT (SqlInt 1)],
        Column ''colorScheme'' TEXT [DEFAULT (SqlText ''dark'')],
        Column ''firstDayOfWeek'' INTEGER [DEFAULT (SqlInt 1)],
        Column ''pingIconsEnabled'' INTEGER [DEFAULT (SqlInt 0)]]) (\<lambda>conn.
     bind (execute_create_table conn ''apiKey''
       [Column ''id'' TEXT [PRIMARY_KEY, NOT_NULL],
        Column ''apiKey'' TEXT [NOT_NULL],
        Column ''salt'' TEXT [NOT_NULL],
        Column ''userId'' TEXT [REFERENCES_ON_DELETE_CASCADE ''user'' ''id'']]) (\<lambda>conn.
     bind (execute_create_table conn ''serverSetting''
       [Column ''settingKey'' TEXT [PRIMARY_KEY, NOT_NULL, UNIQUE],
        Column ''value'' TEXT [NOT_NULL, DEFAULT (SqlText ''{}'')]]) (\<lambda>conn.
     commit conn))))"

definition insert_onboarding_complete :: "connection \<Rightarrow> connection io" where
  "insert_onboarding_complete conn =
     bind (execute_insert conn ''onboarding'' [''id'', ''step'', ''previousStep'']
       [SqlText ''init'', SqlText ''finish'', SqlText ''settings'']) (\<lambda>conn.
     commit conn)"

definition insert_service_user :: "connection \<Rightarrow> connection io" where
  "insert_service_user conn =
     bind (execute_insert conn ''user'' [''id'', ''name'', ''provider'', ''colorScheme'']
       [SqlText SERVICE_USER_ID, SqlText ''HaLOS Service Account'',
        SqlText ''credentials'', SqlText ''dark'']) (\<lambda>conn.
     commit conn)"

text \<open>The function returns the full key; the connection it changed comes with it.\<close>

definition insert_bootstrap_api_key :: "bcrypt_module \<Rightarrow> connection \<Rightarrow> (string \<times> connection) io" where
  "insert_bootstrap_api_key bcrypt conn =
     (let salt = gensalt bcrypt 10;
          hashed = hashpw bcrypt BOOTSTRAP_API_KEY_TOKEN salt in
      bind (execute_insert conn ''apiKey'' [''id'', ''apiKey'', ''salt'', ''userId'']
        [SqlText BOOTSTRAP_API_KEY_ID, SqlText hashed, SqlText salt,
         SqlText SERVICE_USER_ID]) (\<lambda>conn.
      bind (commit conn) (\<lambda>conn.
      return (BOOTSTRAP_API_KEY_ID @ ''.'' @ BOOTSTRAP_API_KEY_TOKEN, conn))))"

definition analytics :: json where
  "analytics = JObject [(''json'', JObject
     [(''enableGeneral'', JBool False),
      (''enableWidgetData'', JBool False),
      (''enableIntegrationData'', JBool False),
      (''enableUserData'', JBool False)])]"

definition crawling :: json where
  "crawling = JObject [(''json'', JObject
     [(''noIndex'', JBool True),
      (''noFollow'', JBool True),
      (''noTranslate'', JBool True),
      (''noSiteLinksSearchBox'', JBool True)])]"

definition insert_server_settings :: "connection \<Rightarrow> connection io" where
  "insert_server_settings conn =
     bind (execute_insert conn ''serverSetting'' [''settingKey'', ''value'']
       [SqlText ''analytics'', SqlText (json_dumps analytics)]) (\<lambda>conn.
     bind (execute_insert conn ''serverSetting'' [''settingKey'', ''value'']
       [SqlText ''crawlingAndIndexing'', SqlText (json_dumps crawling)]) (\<lambda>conn.
     commit conn))"

text \<open>The two options of the command line, each with its default.\<close>

record args =
  output_db :: path
  output_key :: path

definition parse_args :: "path option \<Rightarrow> path option \<Rightarrow> args" where
  "parse_args db_option key_option =
     \<lparr>output_db = (case db_option of None \<Rightarrow> [''db-seed.sqlite3''] | Some p \<Rightarrow> p),
      output_key = (case key_option of None \<Rightarrow> [''bootstrap-api-key''] | Some p \<Rightarrow> p)\<rparr>"

definition main :: "bcrypt_module \<Rightarrow> path option \<Rightarrow> path option \<Rightarrow> int io" where
  "main bcrypt db_option key_option =
     (let args = parse_args db_option key_option in
      bind (mkdir_parents (parent (output_db args))) (\<lambda>u.
      bind (mkdir_parents (parent (output_key args))) (\<lambda>u.
      bind (exists (output_db args)) (\<lambda>present.
      bind (if present then unlink (output_db args) else return ()) (\<lambda>u.
      bind (print (''Creating seed database: '' @ str_path (output_db args))) (\<lambda>u.
      bind (sqlite3_connect (output_db args)) (\<lambda>conn.
      bind (try_finally
             (bind (create_tables conn) (\<lambda>conn.
              bind (insert_onboarding_complete conn) (\<lambda>conn.
              bind (insert_service_user conn) (\<lambda>conn.
              bind (insert_bootstrap_api_key bcrypt conn) (\<lambda>(api_key, conn).
              bind (insert_server_settings conn) (\<lambda>conn.
              return api_key))))))
             (close conn)) (\<lambda>api_key.
      bind (print (''Writing bootstrap API key to: '' @ str_path (output_key args))) (\<lambda>u.
      bind (write_text (output_key args) (api_key @ [CHR 0x0A])) (\<lambda>u.
      bind (print ''Done!'') (\<lambda>u.
      bind (print (''  Database: '' @ str_path (output_db args))) (\<lambda>u.
      bind (print (''  API Key:  '' @ str_path (output_key args))) (\<lambda>u.
      bind (print ([CHR 0x0A] @ ''Bootstrap API key ID: '' @ BOOTSTRAP_API_KEY_ID)) (\<lambda>u.
      bind (print ''This key should be rotated by homarr-container-adapter on first boot.'') (\<lambda>u.
      return 0)))))))))))))))"

text \<open>
  What a run of the script leaves: the exit status, the lines on standard output, what
  went to standard error (a printed line, or the traceback of an exception nothing
  caught) and the filesystem.
\<close>

datatype report = Line string | Traceback error

record outcome =
  exit_code :: int
  out :: "string list"
  err :: "report list"
  files :: filesystem

text \<open>
  The module from its first line: the guarded import of \<^verbatim>\<open>bcrypt\<close> (\<open>None\<close> when the import
  fails), then \<^verbatim>\<open>sys.exit(main())\<close>. An exception nothing catches ends the process with
  status 1.
\<close>

definition script :: "bcrypt_module option \<Rightarrow> path option \<Rightarrow> path option \<Rightarrow> filesystem \<Rightarrow> outcome" where
  "script bcrypt_import db_option key_option f =
     (case bcrypt_import of
        None \<Rightarrow>
          \<lparr>exit_code = 1, out = [],
           err = [Line ''Error: bcrypt module not found. Install with: pip install bcrypt''],
           files = f\<rparr>
      | Some bcrypt \<Rightarrow>
          (case main bcrypt db_option key_option \<lparr>fs = f, stdout = []\<rparr> of
             (Inl e, s) \<Rightarrow> \<lparr>exit_code = 1, out = stdout s, err = [Traceback e], files = fs s\<rparr>
           | (Inr status, s) \<Rightarrow> \<lparr>exit_code = status, out = stdout s, err = [], files = fs s\<rparr>))"

section \<open>Notions the statements use\<close>

text \<open>
  \<open>can_mkdir f p\<close>: the directory \<open>p\<close> is there, or it is missing and can be made, which
  needs its parent to be there or makeable in turn and, when the parent is there already,
  writable.
\<close>

function can_mkdir :: "filesystem \<Rightarrow> path \<Rightarrow> bool" where
  "can_mkdir f p =
     (case nodes f p of
        Some Dir \<Rightarrow> True
      | Some (Reg c) \<Rightarrow> False
      | None \<Rightarrow>
          if parent p = p then False
          else can_mkdir f (parent p) \<and> (nodes f (parent p) = None \<or> parent p \<notin> readonly f))"
  by pat_completeness auto
termination
  by (relation "measure (\<lambda>(f, p). length p)") (auto simp: parent_def butlast_conv_take)

declare can_mkdir.simps [simp del]

declare mkdir_parents.simps [simp del]

text \<open>
  \<open>frame f f' p\<close>: from \<open>f\<close> to \<open>f'\<close> nothing happened but that missing directories on the
  way to \<open>p\<close> were made (and are writable).
\<close>

definition frame :: "filesystem \<Rightarrow> filesystem \<Rightarrow> path \<Rightarrow> bool" where
  "frame f f' p =
     ((\<forall>x. nodes f' x = nodes f x
           \<or> (nodes f x = None \<and> nodes f' x = Some Dir \<and> x \<notin> readonly f' \<and> prefix x p))
      \<and> readonly f' \<subseteq> readonly f
      \<and> (\<forall>x. nodes f x \<noteq> None \<and> x \<in> readonly f \<longrightarrow> x \<in> readonly f'))"


text \<open>
  The database path is writable when its directory can be made and written to and the
  path is no directory; the key path likewise, where an existing key file must be writable
  itself. The two paths are valid together when neither lies on the way to the other.
\<close>

definition db_writable :: "filesystem \<Rightarrow> path \<Rightarrow> bool" where
  "db_writable f p =
     (can_mkdir f (parent p)
      \<and> (nodes f (parent p) = None \<or> parent p \<notin> readonly f)
      \<and> nodes f p \<noteq> Some Dir)"

definition key_writable :: "filesystem \<Rightarrow> path \<Rightarrow> bool" where
  "key_writable f p =
     (can_mkdir f (parent p)
      \<and> (case nodes f p of
            None \<Rightarrow> nodes f (parent p) = None \<or> parent p \<notin> readonly f
          | Some Dir \<Rightarrow> False
          | Some (Reg c) \<Rightarrow> p \<notin> readonly f))"

definition valid_outputs :: "filesystem \<Rightarrow> path \<Rightarrow> path \<Rightarrow> bool" where
  "valid_outputs f db key =
     (db_writable f db \<and> key_writable f key \<and> \<not> prefix db key \<and> \<not> prefix key db)"

definition key_text :: string where
  "key_text = BOOTSTRAP_API_KEY_ID @ ''.'' @ BOOTSTRAP_API_KEY_TOKEN @ [CHR 0x0A]"


text \<open>The database of a finished run in closed form; \<open>seed_fresh\<close> below derives it from the code.\<close>

definition seeded :: "string \<Rightarrow> string \<Rightarrow> database" where
  "seeded salt hashed =
     [(''onboarding'',
       \<lparr>columns =
          [Column ''id'' TEXT [PRIMARY_KEY, NOT_NULL],
           Column ''step'' TEXT [NOT_NULL],
           Column ''previousStep'' TEXT []],
        rows =
          [[(''id'', SqlText ''init''),
            (''step'', SqlText ''finish''),
            (''previousStep'', SqlText ''settings'')]]\<rparr>),
      (''user'',
       \<lparr>columns =
          [Column ''id'' TEXT [PRIMARY_KEY, NOT_NULL],
           Column ''name'' TEXT [],
           Column ''email'' TEXT [],
           Column ''emailVerified'' INTEGER [],
           Column ''image'' TEXT [],
           Column ''password'' TEXT [],
           Column ''salt'' TEXT [],
           Column ''provider'' TEXT [DEFAULT (SqlText ''credentials'')],
           Column ''homeBoardId'' TEXT [],
           Column ''mobileHomeBoardId'' TEXT [],
           Column ''defaultSearchEngineId'' TEXT [],
           Column ''openSearchInNewTab'' INTEGER [DEFAULT (SqlInt 1)],
           Column ''colorScheme'' TEXT [DEFAULT (SqlText ''dark'')],
           Column ''firstDayOfWeek'' INTEGER [DEFAULT (SqlInt 1)],
           Column ''pingIconsEnabled'' INTEGER [DEFAULT (SqlInt 0)]],
        rows =
          [[(''id'', SqlText ''halos-service''),
            (''name'', SqlText ''HaLOS Service Account''),
            (''email'', SqlNull),
            (''emailVerified'', SqlNull),
            (''image'', SqlNull),
            (''password'', SqlNull),
            (''salt'', SqlNull),
            (''provider'', SqlText ''credentials''),
            (''homeBoardId'', SqlNull),
            (''mobileHomeBoardId'', SqlNull),
            (''defaultSearchEngineId'', SqlNull),
            (''openSearchInNewTab'', SqlInt 1),
            (''colorScheme'', SqlText ''dark''),
            (''firstDayOfWeek'', SqlInt 1),
            (''pingIconsEnabled'', SqlInt 0)]]\<rparr>),
      (''apiKey'',
       \<lparr>columns =
          [Column ''id'' TEXT [PRIMARY_KEY, NOT_NULL],
           Column ''apiKey'' TEXT [NOT_NULL],
           Column ''salt'' TEXT [NOT_NULL],
           Column ''userId'' TEXT [REFERENCES_ON_DELETE_CASCADE ''user'' ''id'']],
        rows =
          [[(''id'', SqlText ''halos-bootstrap''),
            (''apiKey'', SqlText hashed),
            (''salt'', SqlText salt),
            (''userId'', SqlText ''halos-service'')]]\<rparr>),
      (''serverSetting'',
       \<lparr>columns =
          [Column ''settingKey'' TEXT [PRIMARY_KEY, NOT_NULL, UNIQUE],
           Column ''value'' TEXT [NOT_NULL, DEFAULT (SqlText ''{}'')]],
        rows =
          [[(''settingKey'', SqlText ''analytics''),
            (''value'', SqlText (json_dumps analytics))],
           [(''settingKey'', SqlText ''crawlingAndIndexing''),
            (''value'', SqlText (json_dumps crawling))]]\<rparr>)]"


text \<open>The database file at a path, and the rows of one of its tables (none without such a file).\<close>

definition database_at :: "filesystem \<Rightarrow> path \<Rightarrow> database option" where
  "database_at f p =
     (case nodes f p of
        Some (Reg (SqliteFile db)) \<Rightarrow> Some db
      | Some (Reg (TextFile x)) \<Rightarrow> None
      | Some Dir \<Rightarrow> None
      | None \<Rightarrow> None)"

definition db_rows :: "filesystem \<Rightarrow> path \<Rightarrow> string \<Rightarrow> row list" where
  "db_rows f p t = (case database_at f p of None \<Rightarrow> [] | Some db \<Rightarrow> rows_of db t)"

text \<open>
  A database with the two values a run draws (the salt and the hash made with it) blanked,
  for comparing the databases of two runs.
\<close>

definition modulo_salt_hash :: "database \<Rightarrow> database" where
  "modulo_salt_hash db =
     map (\<lambda>(n, t).
       if n = ''apiKey''
       then (n, t\<lparr>rows := map (map (\<lambda>(c, v).
               if c = ''apiKey'' \<or> c = ''salt'' then (c, SqlNull) else (c, v))) (rows t)\<rparr>)
       else (n, t)) db"

text \<open>Splitting a string at the first occurrence of a character.\<close>

definition split_first :: "char \<Rightarrow> string \<Rightarrow> string \<times> string" where
  "split_first c s = (takeWhile (\<lambda>x. x \<noteq> c) s, drop 1 (dropWhile (\<lambda>x. x \<noteq> c) s))"

text \<open>
  For the examples: a working directory with nothing in it, and a stand-in for the
  \<^verbatim>\<open>bcrypt\<close> module (no statement depends on what its two functions compute).
\<close>

definition empty_dir :: filesystem where
  "empty_dir = \<lparr>nodes = [[] \<mapsto> Dir], readonly = {}\<rparr>"

definition stub_bcrypt :: bcrypt_module where
  "stub_bcrypt = \<lparr>gensalt = (\<lambda>rounds. ''$2b$10$saltsaltsaltsaltsaltsa''),
                   hashpw = (\<lambda>password salt. salt @ rev password)\<rparr>"


section \<open>Directories\<close>

lemma frame_refl: "frame f f p"
  by (simp add: frame_def)

lemma parent_prefix: "prefix (parent p) p"
  by (simp add: parent_def prefixeq_butlast)

lemma frame_nodes:
  "frame f f' p \<Longrightarrow> nodes f' x = nodes f x
     \<or> (nodes f x = None \<and> nodes f' x = Some Dir \<and> x \<notin> readonly f' \<and> prefix x p)"
  by (simp add: frame_def)

lemma frame_readonly: "frame f f' p \<Longrightarrow> x \<in> readonly f' \<Longrightarrow> x \<in> readonly f"
  by (auto simp: frame_def)

lemma frame_keeps_readonly:
  "frame f f' p \<Longrightarrow> nodes f x \<noteq> None \<Longrightarrow> x \<in> readonly f \<Longrightarrow> x \<in> readonly f'"
  by (simp add: frame_def)

lemma frame_trans:
  assumes 1: "frame f f' q" and 2: "frame f' f'' p" and 3: "prefix q p"
  shows "frame f f'' p"
  unfolding frame_def
proof (intro conjI allI impI subsetI)
  fix x
  show "nodes f'' x = nodes f x
           \<or> (nodes f x = None \<and> nodes f'' x = Some Dir \<and> x \<notin> readonly f'' \<and> prefix x p)"
    using frame_nodes [OF 1, of x] frame_nodes [OF 2, of x] frame_readonly [OF 2, of x] 3
    by (auto dest: prefix_order.trans)
next
  fix x assume "x \<in> readonly f''"
  then show "x \<in> readonly f" using frame_readonly [OF 1] frame_readonly [OF 2] by blast
next
  fix x assume h: "nodes f x \<noteq> None \<and> x \<in> readonly f"
  then have "x \<in> readonly f'" using frame_keeps_readonly [OF 1] by blast
  moreover have "nodes f' x \<noteq> None" using frame_nodes [OF 1, of x] h by auto
  ultimately show "x \<in> readonly f''" using frame_keeps_readonly [OF 2] by blast
qed

lemma os_mkdir_frame:
  assumes "os_mkdir p s = (r, s')"
  shows "frame (fs s) (fs s') p \<and> stdout s' = stdout s"
  using assms
  by (auto simp: os_mkdir_def syscall_def frame_def split: if_splits option.splits node.splits)

lemma is_dir_frame:
  assumes "bind (is_dir p) (\<lambda>d. if d then return () else raise e) s = (r, s')"
  shows "s' = s"
  using assms
  by (auto simp: bind_def is_dir_def syscall_def return_def raise_def split: if_splits)

lemma mkdir_single_frame:
  assumes "mkdir_single p True s = (r, s')"
  shows "frame (fs s) (fs s') p \<and> stdout s' = stdout s"
proof (cases "os_mkdir p s")
  case (Pair r1 s1)
  then have f1: "frame (fs s) (fs s1) p \<and> stdout s1 = stdout s" by (rule os_mkdir_frame)
  show ?thesis
  proof (cases r1)
    case (Inr u)
    with Pair assms have "s' = s1" by (simp add: mkdir_single_def)
    with f1 show ?thesis by simp
  next
    case (Inl e)
    with Pair assms have "s' = s1"
      by (cases e) (auto simp: mkdir_single_def dest: is_dir_frame)
    with f1 show ?thesis by simp
  qed
qed

lemma mkdir_parents_frame:
  "mkdir_parents p s = (r, s') \<Longrightarrow> frame (fs s) (fs s') p \<and> stdout s' = stdout s"
proof (induction p arbitrary: s r s' rule: mkdir_parents.induct)
  case (1 p)
  obtain r1 s1 where o: "os_mkdir p s = (r1, s1)" by (cases "os_mkdir p s")
  then have f1: "frame (fs s) (fs s1) p \<and> stdout s1 = stdout s" by (rule os_mkdir_frame)
  show ?case
  proof (cases r1)
    case (Inr u)
    with o "1.prems" have "s' = s1" by (simp add: mkdir_parents.simps [of p])
    with f1 show ?thesis by simp
  next
    case (Inl e)
    show ?thesis
    proof (cases "(\<exists>q. e = FileNotFoundError q) \<and> parent p \<noteq> p")
      case False
      with Inl o "1.prems" have "s' = s1"
        by (cases e) (auto simp: mkdir_parents.simps [of p] dest: is_dir_frame)
      with f1 show ?thesis by simp
    next
      case True
      then obtain q where e: "e = FileNotFoundError q" and np: "parent p \<noteq> p" by blast
      obtain r2 s2 where m: "mkdir_parents (parent p) s1 = (r2, s2)"
        by (cases "mkdir_parents (parent p) s1")
      from "1.IH" [OF o [symmetric] Inl e np m]
      have f2: "frame (fs s1) (fs s2) (parent p) \<and> stdout s2 = stdout s1" .
      have f12: "frame (fs s) (fs s2) p"
        using frame_trans [of "fs s" "fs s1" p "fs s2" p] f1 f2
          frame_trans [of "fs s1" "fs s2" "parent p" "fs s2" p] frame_refl parent_prefix
        by blast
      show ?thesis
      proof (cases r2)
        case (Inl e2)
        with o \<open>r1 = Inl e\<close> e np m "1.prems" have "s' = s2"
          by (simp add: mkdir_parents.simps [of p] bind_def)
        with f12 f1 f2 show ?thesis by simp
      next
        case (Inr u)
        with o \<open>r1 = Inl e\<close> e np m "1.prems" have "mkdir_single p True s2 = (r, s')"
          by (simp add: mkdir_parents.simps [of p] bind_def)
        then have "frame (fs s2) (fs s') p \<and> stdout s' = stdout s2" by (rule mkdir_single_frame)
        with f12 f1 f2 show ?thesis
          using frame_trans [of "fs s" "fs s2" p "fs s'" p] by simp
      qed
    qed
  qed
qed


lemma os_mkdir_exists:
  "nodes (fs s) p \<noteq> None \<Longrightarrow> os_mkdir p s = (Inl (FileExistsError p), s)"
  by (simp add: os_mkdir_def syscall_def)

lemma os_mkdir_no_parent:
  "nodes (fs s) p = None \<Longrightarrow> nodes (fs s) (parent p) = None
     \<Longrightarrow> os_mkdir p s = (Inl (FileNotFoundError p), s)"
  by (simp add: os_mkdir_def syscall_def)

lemma os_mkdir_parent_file:
  "nodes (fs s) p = None \<Longrightarrow> nodes (fs s) (parent p) = Some (Reg c)
     \<Longrightarrow> os_mkdir p s = (Inl (NotADirectoryError p), s)"
  by (simp add: os_mkdir_def syscall_def)

lemma os_mkdir_parent_readonly:
  "nodes (fs s) p = None \<Longrightarrow> nodes (fs s) (parent p) = Some Dir \<Longrightarrow> parent p \<in> readonly (fs s)
     \<Longrightarrow> os_mkdir p s = (Inl (PermissionError p), s)"
  by (simp add: os_mkdir_def syscall_def)

lemma os_mkdir_creates:
  "nodes (fs s) p = None \<Longrightarrow> nodes (fs s) (parent p) = Some Dir \<Longrightarrow> parent p \<notin> readonly (fs s)
     \<Longrightarrow> \<exists>s'. os_mkdir p s = (Inr (), s') \<and> nodes (fs s') p = Some Dir"
  by (simp add: os_mkdir_def syscall_def)

lemma is_dir_yes:
  "nodes (fs s) p = Some Dir \<Longrightarrow> bind (is_dir p) (\<lambda>d. if d then return () else raise e) s = (Inr (), s)"
  by (simp add: bind_def is_dir_def syscall_def return_def)

lemma is_dir_no:
  "nodes (fs s) p \<noteq> Some Dir \<Longrightarrow> bind (is_dir p) (\<lambda>d. if d then return () else raise e) s = (Inl e, s)"
  by (simp add: bind_def is_dir_def syscall_def raise_def)

lemma not_prefix_parent: "parent p \<noteq> p \<Longrightarrow> \<not> prefix p (parent p)"
  using parent_prefix [of p] by (auto dest: prefix_order.antisym)

lemma mkdir_parents_succeeds:
  "fs s = f \<Longrightarrow> can_mkdir f p \<Longrightarrow> \<exists>s'. mkdir_parents p s = (Inr (), s') \<and> nodes (fs s') p = Some Dir"
proof (induction f p arbitrary: s rule: can_mkdir.induct)
  case (1 f p)
  show ?case
  proof (cases "nodes f p")
    case (Some n)
    with "1.prems" have d: "nodes (fs s) p = Some Dir"
      by (cases n) (auto simp: can_mkdir.simps [of f p])
    then show ?thesis
      by (simp add: mkdir_parents.simps [of p] os_mkdir_exists is_dir_yes)
  next
    case None
    with "1.prems" have np: "parent p \<noteq> p" and cp: "can_mkdir f (parent p)"
      and w: "nodes f (parent p) = None \<or> parent p \<notin> readonly f"
      by (auto simp: can_mkdir.simps [of f p] split: if_splits)
    show ?thesis
    proof (cases "nodes f (parent p)")
      case (Some m)
      with cp have pd: "nodes f (parent p) = Some Dir"
        by (cases m) (auto simp: can_mkdir.simps [of f "parent p"])
      with w have "parent p \<notin> readonly f" by simp
      with None pd "1.prems"(1) obtain s' where "os_mkdir p s = (Inr (), s')"
        and "nodes (fs s') p = Some Dir"
        using os_mkdir_creates [of s p] by auto
      then show ?thesis by (simp add: mkdir_parents.simps [of p])
    next
      case pn: None
      from "1.IH" [OF None np "1.prems"(1) cp]
      obtain s2 where m: "mkdir_parents (parent p) s = (Inr (), s2)"
        and pd: "nodes (fs s2) (parent p) = Some Dir" by blast
      from m have fr: "frame (fs s) (fs s2) (parent p)" by (simp add: mkdir_parents_frame)
      from frame_nodes [OF fr, of "parent p"] pn pd "1.prems"(1)
      have pw: "parent p \<notin> readonly (fs s2)" by auto
      from frame_nodes [OF fr, of p] None "1.prems"(1) not_prefix_parent [OF np]
      have "nodes (fs s2) p = None" by auto
      with pd pw obtain s' where "os_mkdir p s2 = (Inr (), s')" and "nodes (fs s') p = Some Dir"
        using os_mkdir_creates [of s2 p] by auto
      with None pn np m "1.prems"(1) show ?thesis
        by (simp add: mkdir_parents.simps [of p] os_mkdir_no_parent bind_def mkdir_single_def)
    qed
  qed
qed

lemma mkdir_parents_fails:
  "fs s = f \<Longrightarrow> \<not> can_mkdir f p \<Longrightarrow> \<exists>e s'. mkdir_parents p s = (Inl e, s')"
proof (induction f p arbitrary: s rule: can_mkdir.induct)
  case (1 f p)
  show ?case
  proof (cases "nodes f p")
    case (Some n)
    with "1.prems" have "nodes (fs s) p \<noteq> None" and "nodes (fs s) p \<noteq> Some Dir"
      by (auto simp: can_mkdir.simps [of f p])
    then show ?thesis
      by (simp add: mkdir_parents.simps [of p] os_mkdir_exists is_dir_no)
  next
    case None
    then have nd: "nodes (fs s) p \<noteq> Some Dir" and nn: "nodes (fs s) p = None"
      using "1.prems"(1) by auto
    show ?thesis
    proof (cases "nodes f (parent p)")
      case pn: None
      show ?thesis
      proof (cases "parent p = p")
        case True
        with nn pn "1.prems"(1) show ?thesis
          by (simp add: mkdir_parents.simps [of p] os_mkdir_no_parent)
      next
        case False
        with None pn "1.prems" have "\<not> can_mkdir f (parent p)"
          by (auto simp: can_mkdir.simps [of f p])
        from "1.IH" [OF None False "1.prems"(1) this]
        obtain e s' where "mkdir_parents (parent p) s = (Inl e, s')" by blast
        with nn pn False "1.prems"(1) show ?thesis
          by (simp add: mkdir_parents.simps [of p] os_mkdir_no_parent bind_def)
      qed
    next
      case (Some m)
      show ?thesis
      proof (cases m)
        case (Reg c)
        with Some nn nd "1.prems"(1) show ?thesis
          by (simp add: mkdir_parents.simps [of p] os_mkdir_parent_file is_dir_no)
      next
        case Dir
        with Some have "can_mkdir f (parent p)" by (simp add: can_mkdir.simps [of f "parent p"])
        with None Some Dir "1.prems" have "parent p \<in> readonly f"
          by (auto simp: can_mkdir.simps [of f p] split: if_splits)
        with Some Dir nn nd "1.prems"(1) show ?thesis
          by (simp add: mkdir_parents.simps [of p] os_mkdir_parent_readonly is_dir_no)
      qed
    qed
  qed
qed

text \<open>Making one directory leaves another path as creatable as it was.\<close>

lemma can_mkdir_frame:
  "frame f f' q \<Longrightarrow> can_mkdir f p \<Longrightarrow> can_mkdir f' p"
proof (induction f p rule: can_mkdir.induct)
  case (1 f p)
  show ?case
  proof (cases "nodes f' p")
    case None
    with frame_nodes [OF "1.prems"(1), of p] have n: "nodes f p = None" by auto
    with "1.prems"(2) have np: "parent p \<noteq> p" and cp: "can_mkdir f (parent p)"
      and w: "nodes f (parent p) = None \<or> parent p \<notin> readonly f"
      by (auto simp: can_mkdir.simps [of f p] split: if_splits)
    from "1.IH" [OF n np "1.prems"(1) cp] have "can_mkdir f' (parent p)" .
    moreover have "nodes f' (parent p) = None \<or> parent p \<notin> readonly f'"
      using w frame_nodes [OF "1.prems"(1), of "parent p"] frame_readonly [OF "1.prems"(1), of "parent p"]
      by auto
    ultimately show ?thesis using None np by (simp add: can_mkdir.simps [of f' p])
  next
    case (Some n)
    with frame_nodes [OF "1.prems"(1), of p] "1.prems"(2) have "nodes f' p = Some Dir"
      by (cases "nodes f p"; cases n) (auto simp: can_mkdir.simps [of f p] split: node.splits)
    then show ?thesis by (simp add: can_mkdir.simps [of f' p])
  qed
qed

section \<open>Seeding a fresh database\<close>

lemmas io_defs = bind_def return_def raise_def syscall_def try_finally_def

lemmas sql_defs = execute_create_table_def create_table_if_not_exists_def write_database_def
  commit_def execute_insert_def insert_into_def build_row_def violates_not_null_def
  violates_unique_def value_of_def replace_table_def close_def

lemma seed_fresh:
  "try_finally
     (bind (create_tables \<lparr>conn_path = p, conn_db = [], in_transaction = False\<rparr>) (\<lambda>conn.
      bind (insert_onboarding_complete conn) (\<lambda>conn.
      bind (insert_service_user conn) (\<lambda>conn.
      bind (insert_bootstrap_api_key bcrypt conn) (\<lambda>(api_key, conn).
      bind (insert_server_settings conn) (\<lambda>conn.
      return api_key))))))
     (close \<lparr>conn_path = p, conn_db = [], in_transaction = False\<rparr>) s =
   (Inr (BOOTSTRAP_API_KEY_ID @ ''.'' @ BOOTSTRAP_API_KEY_TOKEN),
    s\<lparr>fs := (fs s)\<lparr>nodes := (nodes (fs s))(p \<mapsto> Reg (SqliteFile
       (seeded (gensalt bcrypt 10) (hashpw bcrypt BOOTSTRAP_API_KEY_TOKEN (gensalt bcrypt 10)))))\<rparr>\<rparr>)"
  by (simp add: create_tables_def insert_onboarding_complete_def insert_service_user_def
      insert_bootstrap_api_key_def insert_server_settings_def sql_defs io_defs seeded_def
      SERVICE_USER_ID_def BOOTSTRAP_API_KEY_ID_def Let_def)

lemma seed_fresh_bind:
  "bind (try_finally
     (bind (create_tables \<lparr>conn_path = p, conn_db = [], in_transaction = False\<rparr>) (\<lambda>conn.
      bind (insert_onboarding_complete conn) (\<lambda>conn.
      bind (insert_service_user conn) (\<lambda>conn.
      bind (insert_bootstrap_api_key bcrypt conn) (\<lambda>(api_key, conn).
      bind (insert_server_settings conn) (\<lambda>conn.
      return api_key))))))
     (close \<lparr>conn_path = p, conn_db = [], in_transaction = False\<rparr>)) g s =
   g (BOOTSTRAP_API_KEY_ID @ ''.'' @ BOOTSTRAP_API_KEY_TOKEN)
    (s\<lparr>fs := (fs s)\<lparr>nodes := (nodes (fs s))(p \<mapsto> Reg (SqliteFile
       (seeded (gensalt bcrypt 10) (hashpw bcrypt BOOTSTRAP_API_KEY_TOKEN (gensalt bcrypt 10)))))\<rparr>\<rparr>)"
  unfolding bind_def [of "try_finally m c" for m c] seed_fresh by simp

section \<open>A run\<close>

lemma bind_Inr: "m s = (Inr x, s') \<Longrightarrow> bind m f s = f x s'"
  by (simp add: bind_def)

lemma bind_Inl: "m s = (Inl e, s') \<Longrightarrow> bind m f s = (Inl e, s')"
  by (simp add: bind_def)

lemma print_run: "print x s = (Inr (), s\<lparr>stdout := stdout s @ [x]\<rparr>)"
  by (simp add: print_def)

lemma exists_run: "exists p s = (Inr (nodes (fs s) p \<noteq> None), s)"
  by (simp add: exists_def syscall_def)

lemma prefix_parent_self: "prefix p (parent p) \<Longrightarrow> p = []"
proof -
  assume "prefix p (parent p)"
  then have a: "prefix p (butlast p)" by (simp add: parent_def)
  have "length p \<le> length p - 1" using prefix_length_le [OF a] by (simp only: length_butlast)
  then have "length p = 0" by arith
  then show "p = []" by simp
qed

lemma prefix_parent_trans: "prefix x (parent p) \<Longrightarrow> prefix x p"
  using parent_prefix prefix_order.trans by blast

lemma main_succeeds:
  assumes v: "valid_outputs (fs s) db key"
    and a1: "output_db (parse_args dbo keyo) = db"
    and a2: "output_key (parse_args dbo keyo) = key"
  shows "\<exists>s'. main bcrypt dbo keyo s = (Inr 0, s')
     \<and> nodes (fs s') db = Some (Reg (SqliteFile
           (seeded (gensalt bcrypt 10) (hashpw bcrypt BOOTSTRAP_API_KEY_TOKEN (gensalt bcrypt 10)))))
     \<and> nodes (fs s') key = Some (Reg (TextFile key_text))
     \<and> nodes (fs s') (parent db) = Some Dir
     \<and> nodes (fs s') (parent key) = Some Dir
     \<and> parent db \<notin> readonly (fs s')
     \<and> key \<notin> readonly (fs s')"
proof -
  let ?f = "fs s"
  from v have cd: "can_mkdir ?f (parent db)"
    and wd: "nodes ?f (parent db) = None \<or> parent db \<notin> readonly ?f"
    and nd: "nodes ?f db \<noteq> Some Dir"
    and ck: "can_mkdir ?f (parent key)"
    and wk: "case nodes ?f key of
            None \<Rightarrow> nodes ?f (parent key) = None \<or> parent key \<notin> readonly ?f
          | Some Dir \<Rightarrow> False
          | Some (Reg c) \<Rightarrow> key \<notin> readonly ?f"
    and pdk: "\<not> prefix db key" and pkd: "\<not> prefix key db"
    by (simp_all add: valid_outputs_def db_writable_def key_writable_def)
  have dk: "db \<noteq> key" using pdk by auto
  \<comment> \<open>the two calls of mkdir\<close>
  from mkdir_parents_succeeds [OF refl cd]
  obtain s1 where e1: "mkdir_parents (parent db) s = (Inr (), s1)"
    and d1: "nodes (fs s1) (parent db) = Some Dir" by blast
  from e1 have fr1: "frame ?f (fs s1) (parent db)" and o1: "stdout s1 = stdout s"
    by (simp_all add: mkdir_parents_frame)
  from can_mkdir_frame [OF fr1 ck] have "can_mkdir (fs s1) (parent key)" .
  from mkdir_parents_succeeds [OF refl this]
  obtain s2 where e2: "mkdir_parents (parent key) s1 = (Inr (), s2)"
    and d2: "nodes (fs s2) (parent key) = Some Dir" by blast
  from e2 have fr2: "frame (fs s1) (fs s2) (parent key)"
    by (simp add: mkdir_parents_frame)
  \<comment> \<open>what they left of the two output paths\<close>
  have ndb1: "nodes (fs s1) db = nodes ?f db"
    using frame_nodes [OF fr1, of db] pdk by (auto dest: prefix_parent_self)
  have ndb: "nodes (fs s2) db = nodes ?f db"
    using frame_nodes [OF fr2, of db] ndb1 pdk by (auto dest: prefix_parent_trans)
  have nkey1: "nodes (fs s1) key = nodes ?f key"
    using frame_nodes [OF fr1, of key] pkd by (auto dest: prefix_parent_trans)
  have nkey: "nodes (fs s2) key = nodes ?f key"
    using frame_nodes [OF fr2, of key] nkey1 pkd by (auto dest: prefix_parent_self)
  have pd2: "nodes (fs s2) (parent db) = Some Dir"
    using frame_nodes [OF fr2, of "parent db"] d1 by auto
  have wd1: "parent db \<notin> readonly (fs s1)"
    using wd frame_nodes [OF fr1, of "parent db"] d1 frame_readonly [OF fr1, of "parent db"] by auto
  have wd2: "parent db \<notin> readonly (fs s2)"
    using wd1 frame_readonly [OF fr2] by blast
  have wk2: "nodes ?f key = None \<Longrightarrow> parent key \<notin> readonly (fs s2)"
  proof -
    assume "nodes ?f key = None"
    with wk have w: "nodes ?f (parent key) = None \<or> parent key \<notin> readonly ?f" by simp
    show ?thesis
    proof (cases "nodes (fs s1) (parent key)")
      case None
      with frame_nodes [OF fr2, of "parent key"] d2 show ?thesis by auto
    next
      case (Some n)
      with w frame_nodes [OF fr1, of "parent key"] frame_readonly [OF fr1, of "parent key"]
      have "parent key \<notin> readonly (fs s1)" by auto
      then show ?thesis using frame_readonly [OF fr2] by blast
    qed
  qed
  have wk3: "\<And>c. nodes ?f key = Some (Reg c) \<Longrightarrow> key \<notin> readonly (fs s2)"
    using wk frame_readonly [OF fr1] frame_readonly [OF fr2] by auto
  \<comment> \<open>removing the old database\<close>
  define b where "b = (nodes (fs s2) db \<noteq> None)"
  have e3: "exists db s2 = (Inr b, s2)" by (simp add: exists_run b_def)
  define s3 where "s3 = s2\<lparr>fs := (fs s2)\<lparr>nodes := (nodes (fs s2))(db := None)\<rparr>\<rparr>"
  have e4: "(if b then unlink db else return ()) s2 = (Inr (), s3)"
  proof (cases b)
    case True
    then obtain c where "nodes (fs s2) db = Some (Reg c)"
      using ndb nd by (cases "nodes (fs s2) db") (auto simp: b_def intro: node.exhaust)
    with True wd2 show ?thesis by (simp add: unlink_def syscall_def s3_def)
  next
    case False
    then have "nodes (fs s2) db = None" by (simp add: b_def)
    then have "(nodes (fs s2))(db := None) = nodes (fs s2)" by (simp add: fun_upd_idem)
    with False show ?thesis by (simp add: return_def s3_def)
  qed
  \<comment> \<open>the new database\<close>
  define s4 where "s4 = s3\<lparr>stdout := stdout s3 @ [''Creating seed database: '' @ str_path db]\<rparr>"
  define s5 where "s5 = s4\<lparr>fs := (fs s4)\<lparr>nodes := (nodes (fs s4))(db \<mapsto> Reg (SqliteFile [])),
    readonly := readonly (fs s4) - {db}\<rparr>\<rparr>"
  have pnd: "parent db \<noteq> db" using pd2 ndb nd by auto
  have e6: "sqlite3_connect db s4 = (Inr \<lparr>conn_path = db, conn_db = [], in_transaction = False\<rparr>, s5)"
    using pd2 wd2 pnd by (simp add: sqlite3_connect_def syscall_def s5_def s4_def s3_def)
  define s6 where "s6 = s5\<lparr>fs := (fs s5)\<lparr>nodes := (nodes (fs s5))(db \<mapsto> Reg (SqliteFile
       (seeded (gensalt bcrypt 10) (hashpw bcrypt BOOTSTRAP_API_KEY_TOKEN (gensalt bcrypt 10)))))\<rparr>\<rparr>"
  note e7 = seed_fresh_bind [of db bcrypt _ s5, folded s6_def]
  \<comment> \<open>the key file\<close>
  define s7 where "s7 = s6\<lparr>stdout := stdout s6 @ [''Writing bootstrap API key to: '' @ str_path key]\<rparr>"
  have n7: "nodes (fs s7) = (nodes (fs s2))(db \<mapsto> Reg (SqliteFile
       (seeded (gensalt bcrypt 10) (hashpw bcrypt BOOTSTRAP_API_KEY_TOKEN (gensalt bcrypt 10)))))"
    by (simp add: s7_def s6_def s5_def s4_def s3_def)
  have r7: "readonly (fs s7) = readonly (fs s2) - {db}"
    by (simp add: s7_def s6_def s5_def s4_def s3_def)
  obtain s8 where e9: "write_text key ((BOOTSTRAP_API_KEY_ID @ ''.'' @ BOOTSTRAP_API_KEY_TOKEN) @ [CHR 0x0A]) s7 = (Inr (), s8)"
    and n8: "nodes (fs s8) = (nodes (fs s7))(key \<mapsto> Reg (TextFile key_text))"
    and r8: "readonly (fs s8) \<subseteq> readonly (fs s7)" and k8: "key \<notin> readonly (fs s8)"
  proof (cases "nodes ?f key")
    case None
    then have "nodes (fs s7) key = None" using n7 nkey dk by simp
    moreover have "nodes (fs s7) (parent key) = Some Dir"
      using n7 d2 ndb nd by (cases "parent key = db") auto
    moreover have "parent key \<notin> readonly (fs s7)" using wk2 [OF None] r7 by simp
    ultimately show ?thesis
      by (intro that [of "s7\<lparr>fs := (fs s7)\<lparr>nodes := (nodes (fs s7))(key \<mapsto> Reg (TextFile key_text)),
            readonly := readonly (fs s7) - {key}\<rparr>\<rparr>"])
        (auto simp: write_text_def syscall_def key_text_def)
  next
    case (Some n)
    with wk obtain c where c: "nodes ?f key = Some (Reg c)" by (cases n) auto
    then have "nodes (fs s7) key = Some (Reg c)" using n7 nkey dk by simp
    moreover have "key \<notin> readonly (fs s7)" using wk3 [OF c] r7 by simp
    ultimately show ?thesis
      by (intro that [of "s7\<lparr>fs := (fs s7)\<lparr>nodes := (nodes (fs s7))(key \<mapsto> Reg (TextFile key_text))\<rparr>\<rparr>"])
        (auto simp: write_text_def syscall_def key_text_def)
  qed
  define s9 where "s9 = s8\<lparr>stdout := stdout s8 @ [''Done!'']\<rparr>
    \<lparr>stdout := stdout (s8\<lparr>stdout := stdout s8 @ [''Done!'']\<rparr>) @ [''  Database: '' @ str_path db]\<rparr>"
  have "\<exists>s'. main bcrypt dbo keyo s = (Inr 0, s') \<and> fs s' = fs s8"
    by (simp only: main_def Let_def a1 a2
        bind_Inr [of "mkdir_parents (parent db)" s, OF e1]
        bind_Inr [of "mkdir_parents (parent key)" s1, OF e2]
        bind_Inr [of "exists db" s2, OF e3]
        bind_Inr [of "if b then unlink db else return ()" s2, OF e4]
        bind_Inr [of "print x" for x, OF print_run]
        bind_Inr [of "sqlite3_connect db" s4, OF e6]
        e7
        bind_Inr [of "write_text key ((BOOTSTRAP_API_KEY_ID @ ''.'' @ BOOTSTRAP_API_KEY_TOKEN) @ [CHR 0x0A])" s7, OF e9]
        s4_def [symmetric] s7_def [symmetric])
      (simp add: return_def)
  then obtain s' where m: "main bcrypt dbo keyo s = (Inr 0, s')" and f: "fs s' = fs s8" by blast
  have "nodes (fs s') db = Some (Reg (SqliteFile
           (seeded (gensalt bcrypt 10) (hashpw bcrypt BOOTSTRAP_API_KEY_TOKEN (gensalt bcrypt 10)))))"
    using f n8 n7 dk by simp
  moreover have "nodes (fs s') key = Some (Reg (TextFile key_text))" using f n8 by simp
  moreover have "nodes (fs s') (parent db) = Some Dir"
    using f n8 n7 pd2 pnd pkd parent_prefix [of db] by (cases "parent db = key") auto
  moreover have "nodes (fs s') (parent key) = Some Dir"
    using f n8 n7 d2 pdk parent_prefix [of key] nkey wk by (cases "parent key = db"; cases "parent key = key") auto
  moreover have "parent db \<notin> readonly (fs s')" using f r8 r7 wd2 by auto
  moreover have "key \<notin> readonly (fs s')" using f k8 by simp
  ultimately show ?thesis using m by blast
qed

lemma bind_InrE:
  assumes "bind m f s = (Inr x, s')"
  obtains y s1 where "m s = (Inr y, s1)" and "f y s1 = (Inr x, s')"
  using assms by (auto simp: bind_def split: prod.splits sum.splits)

lemma return_run: "return x s = (Inr x, s)"
  by (simp add: return_def)

lemma absent_after_unlink:
  assumes "exists p s = (Inr present, s1)"
    and "(if present then unlink p else return ()) s1 = (Inr u, s2)"
  shows "nodes (fs s2) p = None \<and> stdout s2 = stdout s
    \<and> (\<forall>x. x \<noteq> p \<longrightarrow> nodes (fs s2) x = nodes (fs s) x)"
  using assms
  by (auto simp: exists_def unlink_def syscall_def return_def split: if_splits option.splits)

lemma connect_absent:
  assumes "sqlite3_connect p s = (Inr conn, s')" and "nodes (fs s) p = None"
  shows "conn = \<lparr>conn_path = p, conn_db = [], in_transaction = False\<rparr>
    \<and> nodes (fs s') = (nodes (fs s))(p \<mapsto> Reg (SqliteFile []))"
  using assms by (auto simp: sqlite3_connect_def syscall_def split: if_splits)

lemma write_text_result:
  assumes "write_text p t s = (Inr u, s')"
  shows "nodes (fs s') = (nodes (fs s))(p \<mapsto> Reg (TextFile t))"
  using assms
  by (auto simp: write_text_def syscall_def split: if_splits option.splits node.splits)

lemma main_result:
  assumes m: "main bcrypt dbo keyo s = (Inr status, s')"
    and a1: "output_db (parse_args dbo keyo) = db"
    and a2: "output_key (parse_args dbo keyo) = key"
  shows "status = 0
     \<and> nodes (fs s') key = Some (Reg (TextFile key_text))
     \<and> (db \<noteq> key \<longrightarrow> nodes (fs s') db = Some (Reg (SqliteFile
           (seeded (gensalt bcrypt 10) (hashpw bcrypt BOOTSTRAP_API_KEY_TOKEN (gensalt bcrypt 10))))))"
  using m unfolding main_def Let_def a1 a2
proof (elim bind_InrE)
  fix u1 s1 u2 s2 present s3 u4 s4 u5 s5 conn s6 api_key s7 u8 s8 u9 s9 u10 s10 u11 s11 u12 s12
    u13 s13 u14 s14
  assume e3: "exists db s2 = (Inr present, s3)"
    and e4: "(if present then unlink db else return ()) s3 = (Inr u4, s4)"
    and e5: "print (''Creating seed database: '' @ str_path db) s4 = (Inr u5, s5)"
    and e6: "sqlite3_connect db s5 = (Inr conn, s6)"
    and e7: "try_finally
       (bind (create_tables conn) (\<lambda>conn.
        bind (insert_onboarding_complete conn) (\<lambda>conn.
        bind (insert_service_user conn) (\<lambda>conn.
        bind (insert_bootstrap_api_key bcrypt conn) (\<lambda>(api_key, conn).
        bind (insert_server_settings conn) (\<lambda>conn.
        return api_key))))))
       (close conn) s6 = (Inr api_key, s7)"
    and e8: "print (''Writing bootstrap API key to: '' @ str_path key) s7 = (Inr u8, s8)"
    and e9: "write_text key (api_key @ [CHR 0x0A]) s8 = (Inr u9, s9)"
    and e10: "print ''Done!'' s9 = (Inr u10, s10)"
    and e11: "print (''  Database: '' @ str_path db) s10 = (Inr u11, s11)"
    and e12: "print (''  API Key:  '' @ str_path key) s11 = (Inr u12, s12)"
    and e13: "print ([CHR 0x0A] @ ''Bootstrap API key ID: '' @ BOOTSTRAP_API_KEY_ID) s12 = (Inr u13, s13)"
    and e14: "print ''This key should be rotated by homarr-container-adapter on first boot.'' s13 = (Inr u14, s14)"
    and e15: "return 0 s14 = (Inr status, s')"
  from absent_after_unlink [OF e3 e4] have "nodes (fs s4) db = None" by simp
  with e5 have "nodes (fs s5) db = None" by (auto simp: print_def)
  from connect_absent [OF e6 this]
  have c: "conn = \<lparr>conn_path = db, conn_db = [], in_transaction = False\<rparr>" by simp
  from e7 have k: "api_key = BOOTSTRAP_API_KEY_ID @ ''.'' @ BOOTSTRAP_API_KEY_TOKEN"
    and n7: "nodes (fs s7) db = Some (Reg (SqliteFile
           (seeded (gensalt bcrypt 10) (hashpw bcrypt BOOTSTRAP_API_KEY_TOKEN (gensalt bcrypt 10)))))"
    unfolding c seed_fresh by auto
  from e8 have f8: "fs s8 = fs s7" by (auto simp: print_def)
  from write_text_result [OF e9]
  have n9: "nodes (fs s9) = (nodes (fs s8))(key \<mapsto> Reg (TextFile key_text))"
    by (simp add: k key_text_def)
  from e10 e11 e12 e13 e14 e15 have "fs s' = fs s9" and "status = 0"
    by (auto simp: print_def return_def)
  with n9 f8 n7 show ?thesis by simp
qed

lemma dumps_analytics:
  \<open>json_dumps analytics =
     ''{"json": {"enableGeneral": false, "enableWidgetData": false, "enableIntegrationData": false, "enableUserData": false}}''\<close>
  by (simp add: analytics_def encode_string_def escape_char_def)

lemma dumps_crawling:
  \<open>json_dumps crawling =
     ''{"json": {"noIndex": true, "noFollow": true, "noTranslate": true, "noSiteLinksSearchBox": true}}''\<close>
  by (simp add: crawling_def encode_string_def escape_char_def)

lemma run_valid:
  assumes "valid_outputs f (output_db (parse_args dbo keyo)) (output_key (parse_args dbo keyo))"
  shows "exit_code (script (Some bcrypt) dbo keyo f) = 0
    \<and> err (script (Some bcrypt) dbo keyo f) = []
    \<and> nodes (files (script (Some bcrypt) dbo keyo f)) (output_db (parse_args dbo keyo)) =
        Some (Reg (SqliteFile
           (seeded (gensalt bcrypt 10) (hashpw bcrypt BOOTSTRAP_API_KEY_TOKEN (gensalt bcrypt 10)))))
    \<and> nodes (files (script (Some bcrypt) dbo keyo f)) (output_key (parse_args dbo keyo)) =
        Some (Reg (TextFile key_text))
    \<and> nodes (files (script (Some bcrypt) dbo keyo f)) (parent (output_db (parse_args dbo keyo))) = Some Dir
    \<and> nodes (files (script (Some bcrypt) dbo keyo f)) (parent (output_key (parse_args dbo keyo))) = Some Dir
    \<and> parent (output_db (parse_args dbo keyo)) \<notin> readonly (files (script (Some bcrypt) dbo keyo f))
    \<and> output_key (parse_args dbo keyo) \<notin> readonly (files (script (Some bcrypt) dbo keyo f))"
proof -
  from assms have "valid_outputs (fs \<lparr>fs = f, stdout = []\<rparr>)
      (output_db (parse_args dbo keyo)) (output_key (parse_args dbo keyo))" by simp
  from main_succeeds [OF this refl refl, of bcrypt]
  obtain s' where "main bcrypt dbo keyo \<lparr>fs = f, stdout = []\<rparr> = (Inr 0, s')"
    and "nodes (fs s') (output_db (parse_args dbo keyo)) = Some (Reg (SqliteFile
           (seeded (gensalt bcrypt 10) (hashpw bcrypt BOOTSTRAP_API_KEY_TOKEN (gensalt bcrypt 10)))))"
    and "nodes (fs s') (output_key (parse_args dbo keyo)) = Some (Reg (TextFile key_text))"
    and "nodes (fs s') (parent (output_db (parse_args dbo keyo))) = Some Dir"
    and "nodes (fs s') (parent (output_key (parse_args dbo keyo))) = Some Dir"
    and "parent (output_db (parse_args dbo keyo)) \<notin> readonly (fs s')"
    and "output_key (parse_args dbo keyo) \<notin> readonly (fs s')"
    by blast
  then show ?thesis by (simp add: script_def)
qed

lemma run_success:
  assumes "exit_code (script (Some bcrypt) dbo keyo f) = 0"
  shows "nodes (files (script (Some bcrypt) dbo keyo f)) (output_key (parse_args dbo keyo)) =
        Some (Reg (TextFile key_text))
    \<and> (output_db (parse_args dbo keyo) \<noteq> output_key (parse_args dbo keyo) \<longrightarrow>
        nodes (files (script (Some bcrypt) dbo keyo f)) (output_db (parse_args dbo keyo)) =
        Some (Reg (SqliteFile
           (seeded (gensalt bcrypt 10) (hashpw bcrypt BOOTSTRAP_API_KEY_TOKEN (gensalt bcrypt 10))))))"
proof (cases "main bcrypt dbo keyo \<lparr>fs = f, stdout = []\<rparr>")
  case (Pair r s')
  show ?thesis
  proof (cases r)
    case (Inl e)
    with Pair assms show ?thesis by (simp add: script_def)
  next
    case (Inr status)
    with Pair main_result [of bcrypt dbo keyo "\<lparr>fs = f, stdout = []\<rparr>" status s', OF _ refl refl]
    show ?thesis by (simp add: script_def)
  qed
qed

lemma valid_empty_dir [simp]:
  "valid_outputs empty_dir [a] [b] = (a \<noteq> b)"
  by (auto simp: valid_outputs_def db_writable_def key_writable_def empty_dir_def parent_def
      can_mkdir.simps [of _ "[]"])

lemma rows_seeded:
  "rows_of (seeded sa h) ''onboarding'' =
     [[(''id'', SqlText ''init''), (''step'', SqlText ''finish''), (''previousStep'', SqlText ''settings'')]]"
  "rows_of (seeded sa h) ''user'' =
     [[(''id'', SqlText ''halos-service''),
       (''name'', SqlText ''HaLOS Service Account''),
       (''email'', SqlNull),
       (''emailVerified'', SqlNull),
       (''image'', SqlNull),
       (''password'', SqlNull),
       (''salt'', SqlNull),
       (''provider'', SqlText ''credentials''),
       (''homeBoardId'', SqlNull),
       (''mobileHomeBoardId'', SqlNull),
       (''defaultSearchEngineId'', SqlNull),
       (''openSearchInNewTab'', SqlInt 1),
       (''colorScheme'', SqlText ''dark''),
       (''firstDayOfWeek'', SqlInt 1),
       (''pingIconsEnabled'', SqlInt 0)]]"
  "rows_of (seeded sa h) ''apiKey'' =
     [[(''id'', SqlText ''halos-bootstrap''), (''apiKey'', SqlText h), (''salt'', SqlText sa),
       (''userId'', SqlText ''halos-service'')]]"
  "rows_of (seeded sa h) ''serverSetting'' =
     [[(''settingKey'', SqlText ''analytics''), (''value'', SqlText (json_dumps analytics))],
      [(''settingKey'', SqlText ''crawlingAndIndexing''), (''value'', SqlText (json_dumps crawling))]]"
  by (simp_all add: seeded_def rows_of_def)

lemma db_rows_file:
  "nodes f p = Some (Reg (SqliteFile db)) \<Longrightarrow> db_rows f p t = rows_of db t"
  by (simp add: db_rows_def database_at_def)

lemma defaults [simp]:
  "output_db (parse_args None None) = [''db-seed.sqlite3'']"
  "output_key (parse_args None None) = [''bootstrap-api-key'']"
  by (simp_all add: parse_args_def)

lemma default_run_valid:
  "valid_outputs empty_dir (output_db (parse_args None None)) (output_key (parse_args None None))"
  by simp

text \<open>A run whose database path is not writable fails before it writes any file.\<close>

lemma unlink_fails:
  assumes "nodes (fs s) p = Some n" and "parent p \<in> readonly (fs s) \<or> n = Dir"
  shows "\<exists>e. unlink p s = (Inl e, s)"
  using assms by (auto simp: unlink_def syscall_def)

lemma connect_fails:
  assumes "nodes (fs s) p = None"
    and "nodes (fs s) (parent p) \<noteq> Some Dir \<or> parent p \<in> readonly (fs s)"
  shows "\<exists>e. sqlite3_connect p s = (Inl e, s)"
  using assms by (auto simp: sqlite3_connect_def syscall_def)

lemma main_fails_unwritable:
  assumes nw: "\<not> db_writable (fs s) db"
    and a1: "output_db (parse_args dbo keyo) = db"
    and a2: "output_key (parse_args dbo keyo) = key"
  shows "\<exists>e s'. main bcrypt dbo keyo s = (Inl e, s')
     \<and> (\<forall>x. nodes (fs s') x = nodes (fs s) x \<or> (nodes (fs s) x = None \<and> nodes (fs s') x = Some Dir))
     \<and> (stdout s' = stdout s
          \<or> stdout s' = stdout s @ [''Creating seed database: '' @ str_path db])"
proof (cases "can_mkdir (fs s) (parent db)")
  case False
  from mkdir_parents_fails [OF refl False]
  obtain e s1 where e1: "mkdir_parents (parent db) s = (Inl e, s1)" by blast
  then have fr1: "frame (fs s) (fs s1) (parent db)" and o1: "stdout s1 = stdout s"
    by (simp_all add: mkdir_parents_frame)
  have "main bcrypt dbo keyo s = (Inl e, s1)"
    by (simp only: main_def Let_def a1 a2 bind_Inl [of "mkdir_parents (parent db)" s, OF e1])
  moreover have "\<forall>x. nodes (fs s1) x = nodes (fs s) x \<or> (nodes (fs s) x = None \<and> nodes (fs s1) x = Some Dir)"
    using frame_nodes [OF fr1] by blast
  ultimately show ?thesis using o1 by blast
next
  case True
  with nw have bad: "(nodes (fs s) (parent db) \<noteq> None \<and> parent db \<in> readonly (fs s))
      \<or> nodes (fs s) db = Some Dir"
    by (auto simp: db_writable_def)
  from mkdir_parents_succeeds [OF refl True]
  obtain s1 where e1: "mkdir_parents (parent db) s = (Inr (), s1)"
    and d1: "nodes (fs s1) (parent db) = Some Dir" by blast
  from e1 have fr1: "frame (fs s) (fs s1) (parent db)" and o1: "stdout s1 = stdout s"
    by (simp_all add: mkdir_parents_frame)
  obtain r2 s2 where e2: "mkdir_parents (parent key) s1 = (r2, s2)"
    by (cases "mkdir_parents (parent key) s1")
  then have fr2: "frame (fs s1) (fs s2) (parent key)" and o2: "stdout s2 = stdout s1"
    by (simp_all add: mkdir_parents_frame)
  have added: "\<forall>x. nodes (fs s2) x = nodes (fs s) x \<or> (nodes (fs s) x = None \<and> nodes (fs s2) x = Some Dir)"
  proof
    fix x
    from frame_nodes [OF fr1, of x] frame_nodes [OF fr2, of x]
    show "nodes (fs s2) x = nodes (fs s) x \<or> (nodes (fs s) x = None \<and> nodes (fs s2) x = Some Dir)"
      by auto
  qed
  show ?thesis
  proof (cases r2)
    case (Inl e)
    have "main bcrypt dbo keyo s = (Inl e, s2)"
      by (simp only: main_def Let_def a1 a2 bind_Inr [of "mkdir_parents (parent db)" s, OF e1]
          bind_Inl [of "mkdir_parents (parent key)" s1, OF e2 [unfolded Inl]])
    with added o1 o2 show ?thesis by auto
  next
    case (Inr u)
    then have e2': "mkdir_parents (parent key) s1 = (Inr (), s2)" using e2 by simp
    have pd2: "nodes (fs s2) (parent db) = Some Dir"
      using frame_nodes [OF fr2, of "parent db"] d1 by auto
    have bad2: "parent db \<in> readonly (fs s2) \<or> nodes (fs s2) db = Some Dir"
    proof -
      from bad show ?thesis
      proof
        assume h: "nodes (fs s) (parent db) \<noteq> None \<and> parent db \<in> readonly (fs s)"
        then have "parent db \<in> readonly (fs s1)" using frame_keeps_readonly [OF fr1] by blast
        moreover have "nodes (fs s1) (parent db) \<noteq> None" using d1 by simp
        ultimately have "parent db \<in> readonly (fs s2)" using frame_keeps_readonly [OF fr2] by blast
        then show ?thesis ..
      next
        assume "nodes (fs s) db = Some Dir"
        then have "nodes (fs s2) db = Some Dir"
          using frame_nodes [OF fr1, of db] frame_nodes [OF fr2, of db] by auto
        then show ?thesis ..
      qed
    qed
    define b where "b = (nodes (fs s2) db \<noteq> None)"
    have e3: "exists db s2 = (Inr b, s2)" by (simp add: exists_run b_def)
    show ?thesis
    proof (cases b)
      case True
      then obtain n where n: "nodes (fs s2) db = Some n" by (auto simp: b_def)
      with bad2 have "parent db \<in> readonly (fs s2) \<or> n = Dir" by auto
      from unlink_fails [OF n this] True
      obtain e where e4: "(if b then unlink db else return ()) s2 = (Inl e, s2)" by auto
      have "main bcrypt dbo keyo s = (Inl e, s2)"
        by (simp only: main_def Let_def a1 a2 bind_Inr [of "mkdir_parents (parent db)" s, OF e1]
            bind_Inr [of "mkdir_parents (parent key)" s1, OF e2']
            bind_Inr [of "exists db" s2, OF e3]
            bind_Inl [of "if b then unlink db else return ()" s2, OF e4])
      with added o1 o2 show ?thesis by auto
    next
      case False
      then have n: "nodes (fs s2) db = None" by (simp add: b_def)
      from False have e4: "(if b then unlink db else return ()) s2 = (Inr (), s2)"
        by (simp add: return_def)
      define s4 where "s4 = s2\<lparr>stdout := stdout s2 @ [''Creating seed database: '' @ str_path db]\<rparr>"
      have f4: "fs s4 = fs s2" by (simp add: s4_def)
      from n bad2 have "nodes (fs s4) db = None"
        and "nodes (fs s4) (parent db) \<noteq> Some Dir \<or> parent db \<in> readonly (fs s4)"
        by (auto simp: f4)
      from connect_fails [OF this]
      obtain e where e6: "sqlite3_connect db s4 = (Inl e, s4)" by blast
      have "main bcrypt dbo keyo s = (Inl e, s4)"
        by (simp only: main_def Let_def a1 a2 bind_Inr [of "mkdir_parents (parent db)" s, OF e1]
            bind_Inr [of "mkdir_parents (parent key)" s1, OF e2']
            bind_Inr [of "exists db" s2, OF e3]
            bind_Inr [of "if b then unlink db else return ()" s2, OF e4]
            bind_Inr [of "print x" for x, OF print_run] s4_def [symmetric]
            bind_Inl [of "sqlite3_connect db" s4, OF e6])
      moreover have "stdout s4 = stdout s @ [''Creating seed database: '' @ str_path db]"
        by (simp add: s4_def o1 o2)
      ultimately show ?thesis using added f4 by auto
    qed
  qed
qed

text \<open>Running again: the statements of \<open>main\<close> up to the removal, and the paths after a run.\<close>

lemma main_removes_first:
  assumes m: "main bcrypt dbo keyo s = (Inr status, s')"
    and a1: "output_db (parse_args dbo keyo) = db"
    and a2: "output_key (parse_args dbo keyo) = key"
  shows "\<exists>s3. bind (mkdir_parents (parent db)) (\<lambda>u.
           bind (mkdir_parents (parent key)) (\<lambda>u.
           bind (exists db) (\<lambda>present.
           if present then unlink db else return ()))) s = (Inr (), s3)
     \<and> nodes (fs s3) db = None"
  using m unfolding main_def Let_def a1 a2
proof (elim bind_InrE)
  fix u1 s1 u2 s2 present s3 u4 s4 u5 s5 conn s6 api_key s7 u8 s8 u9 s9 u10 s10 u11 s11 u12 s12
    u13 s13 u14 s14
  assume e1: "mkdir_parents (parent db) s = (Inr u1, s1)"
    and e2: "mkdir_parents (parent key) s1 = (Inr u2, s2)"
    and e3: "exists db s2 = (Inr present, s3)"
    and e4: "(if present then unlink db else return ()) s3 = (Inr u4, s4)"
  from absent_after_unlink [OF e3 e4] have n: "nodes (fs s4) db = None" by simp
  have "bind (mkdir_parents (parent db)) (\<lambda>u.
           bind (mkdir_parents (parent key)) (\<lambda>u.
           bind (exists db) (\<lambda>present.
           if present then unlink db else return ()))) s = (Inr (), s4)"
    by (simp only: bind_Inr [of "mkdir_parents (parent db)" s, OF e1]
        bind_Inr [of "mkdir_parents (parent key)" s1, OF e2]
        bind_Inr [of "exists db" s2, OF e3] e4 unit_eq [of u4])
  with n show ?thesis by blast
qed

lemma valid_after_run:
  assumes v: "valid_outputs f (output_db (parse_args dbo keyo)) (output_key (parse_args dbo keyo))"
  shows "valid_outputs (files (script (Some bcrypt) dbo keyo f))
     (output_db (parse_args dbo keyo)) (output_key (parse_args dbo keyo))"
  using run_valid [OF v, of bcrypt] v
  by (simp add: valid_outputs_def db_writable_def key_writable_def can_mkdir.simps)

lemma modulo_seeded: "modulo_salt_hash (seeded sa h) = modulo_salt_hash (seeded sa' h')"
  by (simp add: modulo_salt_hash_def seeded_def)

lemma database_at_file: "nodes f p = Some (Reg (SqliteFile db)) \<Longrightarrow> database_at f p = Some db"
  by (simp add: database_at_def)

lemma exit_0_main:
  "exit_code (script (Some bcrypt) dbo keyo f) = 0
     \<Longrightarrow> \<exists>s'. main bcrypt dbo keyo \<lparr>fs = f, stdout = []\<rparr> = (Inr 0, s')"
  by (cases "main bcrypt dbo keyo \<lparr>fs = f, stdout = []\<rparr>")
    (auto simp: script_def split: sum.splits)

text \<open>One path for both options: the run exits with status 0 and the key text replaces the database.\<close>

lemma same_path_rows:
  assumes "exit_code (script (Some bcrypt) dbo keyo f) = 0"
    and "output_db (parse_args dbo keyo) = output_key (parse_args dbo keyo)"
  shows "db_rows (files (script (Some bcrypt) dbo keyo f)) (output_db (parse_args dbo keyo)) t = []"
  using run_success [OF assms(1)] assms(2)
  by (simp add: db_rows_def database_at_def)

lemma same_path_exit:
  "exit_code (script (Some stub_bcrypt) (Some [''x'']) (Some [''x'']) empty_dir) = 0"
proof -
  let ?s = "\<lparr>fs = empty_dir, stdout = []\<rparr>"
  have p: "parent [''x''] = []" by (simp add: parent_def)
  have e1: "mkdir_parents [] ?s = (Inr (), ?s)"
    by (simp add: mkdir_parents.simps [of "[]"] os_mkdir_exists is_dir_yes empty_dir_def)
  have e3: "exists [''x''] ?s = (Inr False, ?s)"
    by (simp add: exists_run empty_dir_def)
  have e4: "(if False then unlink [''x''] else return ()) ?s = (Inr (), ?s)"
    by (simp add: return_def)
  define s4 where "s4 = ?s\<lparr>stdout := stdout ?s @ [''Creating seed database: '' @ str_path [''x'']]\<rparr>"
  define s5 where "s5 = s4\<lparr>fs := (fs s4)\<lparr>nodes := (nodes (fs s4))([''x''] \<mapsto> Reg (SqliteFile [])),
    readonly := readonly (fs s4) - {[''x'']}\<rparr>\<rparr>"
  have e6: "sqlite3_connect [''x''] s4 = (Inr \<lparr>conn_path = [''x''], conn_db = [], in_transaction = False\<rparr>, s5)"
    by (simp add: sqlite3_connect_def syscall_def s5_def s4_def empty_dir_def parent_def)
  define s6 where "s6 = s5\<lparr>fs := (fs s5)\<lparr>nodes := (nodes (fs s5))([''x''] \<mapsto> Reg (SqliteFile
       (seeded (gensalt stub_bcrypt 10) (hashpw stub_bcrypt BOOTSTRAP_API_KEY_TOKEN (gensalt stub_bcrypt 10)))))\<rparr>\<rparr>"
  note e7 = seed_fresh_bind [of "[''x'']" stub_bcrypt _ s5, folded s6_def]
  define s7 where "s7 = s6\<lparr>stdout := stdout s6 @ [''Writing bootstrap API key to: '' @ str_path [''x'']]\<rparr>"
  define s8 where "s8 = s7\<lparr>fs := (fs s7)\<lparr>nodes := (nodes (fs s7))([''x''] \<mapsto> Reg (TextFile key_text))\<rparr>\<rparr>"
  have e9: "write_text [''x''] ((BOOTSTRAP_API_KEY_ID @ ''.'' @ BOOTSTRAP_API_KEY_TOKEN) @ [CHR 0x0A]) s7 = (Inr (), s8)"
    by (simp add: write_text_def syscall_def s8_def s7_def s6_def s5_def s4_def key_text_def)
  have "\<exists>s'. main stub_bcrypt (Some [''x'']) (Some [''x'']) ?s = (Inr 0, s')"
    by (simp only: main_def Let_def parse_args_def option.case args.select_convs p
        bind_Inr [of "mkdir_parents []" ?s, OF e1]
        bind_Inr [of "exists [''x'']" ?s, OF e3]
        bind_Inr [of "if False then unlink [''x''] else return ()" ?s, OF e4]
        bind_Inr [of "print x" for x, OF print_run]
        bind_Inr [of "sqlite3_connect [''x'']" s4, OF e6]
        e7
        bind_Inr [of "write_text [''x''] ((BOOTSTRAP_API_KEY_ID @ ''.'' @ BOOTSTRAP_API_KEY_TOKEN) @ [CHR 0x0A])" s7, OF e9]
        s4_def [symmetric] s7_def [symmetric])
      (simp add: return_def)
  then show ?thesis by (auto simp: script_def)
qed

section \<open>The claims\<close>

text \<open>
  C3. After every successful run the key file holds exactly the credential identifier, a
  dot, the plaintext token and a newline, and the part of that text before the first dot
  is the identifier; when the database path and the key path are different paths, the
  \<open>id\<close> column of the only row of \<open>apiKey\<close> is that identifier.
\<close>

theorem key_file_contents:
  assumes "exit_code (script (Some bcrypt) dbo keyo f) = 0"
  shows "nodes (files (script (Some bcrypt) dbo keyo f)) (output_key (parse_args dbo keyo)) =
      Some (Reg (TextFile (BOOTSTRAP_API_KEY_ID @ ''.'' @ BOOTSTRAP_API_KEY_TOKEN @ [CHR 0x0A])))
    \<and> takeWhile (\<lambda>c. c \<noteq> CHR ''.'') (BOOTSTRAP_API_KEY_ID @ ''.'' @ BOOTSTRAP_API_KEY_TOKEN @ [CHR 0x0A])
        = BOOTSTRAP_API_KEY_ID
    \<and> (output_db (parse_args dbo keyo) \<noteq> output_key (parse_args dbo keyo) \<longrightarrow>
        map (\<lambda>r. value_of r ''id'')
          (db_rows (files (script (Some bcrypt) dbo keyo f)) (output_db (parse_args dbo keyo)) ''apiKey'')
        = [SqlText BOOTSTRAP_API_KEY_ID])"
proof -
  have "takeWhile (\<lambda>c. c \<noteq> CHR ''.'') (BOOTSTRAP_API_KEY_ID @ ''.'' @ BOOTSTRAP_API_KEY_TOKEN @ [CHR 0x0A])
        = BOOTSTRAP_API_KEY_ID"
    by (simp add: BOOTSTRAP_API_KEY_ID_def)
  with run_success [OF assms] show ?thesis
    by (auto simp: key_text_def db_rows_file rows_seeded value_of_def BOOTSTRAP_API_KEY_ID_def)
qed

theorem key_file_contents_witness:
  "exit_code (script (Some stub_bcrypt) None None empty_dir) = 0
   \<and> nodes (files (script (Some stub_bcrypt) None None empty_dir)) [''bootstrap-api-key''] =
      Some (Reg (TextFile (''halos-bootstrap.halos-bootstrap-rotate-me-on-first-boot-abc123'' @ [CHR 0x0A])))
   \<and> map (\<lambda>r. value_of r ''id'')
        (db_rows (files (script (Some stub_bcrypt) None None empty_dir)) [''db-seed.sqlite3''] ''apiKey'')
      = [SqlText ''halos-bootstrap'']"
proof -
  have e: "exit_code (script (Some stub_bcrypt) None None empty_dir) = 0"
    using run_valid [OF default_run_valid] by blast
  from key_file_contents [OF e] e show ?thesis
    by (simp add: BOOTSTRAP_API_KEY_ID_def BOOTSTRAP_API_KEY_TOKEN_def)
qed


text \<open>
  Without the condition on the paths the statement fails: given the same path for both
  options, the run exits with status 0, the file holds the key text and there is no row
  of \<open>apiKey\<close> whose \<open>id\<close> the identifier could equal.
\<close>

theorem key_file_contents_counterexample:
  "exit_code (script (Some stub_bcrypt) (Some [''x'']) (Some [''x'']) empty_dir) = 0
   \<and> nodes (files (script (Some stub_bcrypt) (Some [''x'']) (Some [''x'']) empty_dir)) [''x''] =
      Some (Reg (TextFile (''halos-bootstrap.halos-bootstrap-rotate-me-on-first-boot-abc123'' @ [CHR 0x0A])))
   \<and> db_rows (files (script (Some stub_bcrypt) (Some [''x'']) (Some [''x'']) empty_dir)) [''x''] ''apiKey'' = []"
  using same_path_exit run_success [OF same_path_exit] same_path_rows [OF same_path_exit, of "''apiKey''"]
  by (simp add: parse_args_def key_text_def BOOTSTRAP_API_KEY_ID_def BOOTSTRAP_API_KEY_TOKEN_def)

text \<open>
  C9. Neither the credential identifier nor the plaintext token contains a dot, so
  splitting the key string that \<open>insert_bootstrap_api_key\<close> returns at its first dot gives
  back exactly the identifier and the token.
\<close>

theorem key_string_splits:
  assumes "insert_bootstrap_api_key bcrypt conn s = (Inr (api_key, conn'), s')"
  shows "CHR ''.'' \<notin> set BOOTSTRAP_API_KEY_ID
    \<and> CHR ''.'' \<notin> set BOOTSTRAP_API_KEY_TOKEN
    \<and> split_first (CHR ''.'') api_key = (BOOTSTRAP_API_KEY_ID, BOOTSTRAP_API_KEY_TOKEN)"
proof -
  from assms have "api_key = BOOTSTRAP_API_KEY_ID @ ''.'' @ BOOTSTRAP_API_KEY_TOKEN"
    by (auto simp: insert_bootstrap_api_key_def Let_def return_def elim!: bind_InrE)
  then show ?thesis
    by (simp add: split_first_def BOOTSTRAP_API_KEY_ID_def BOOTSTRAP_API_KEY_TOKEN_def)
qed

theorem key_string_splits_witness:
  "map_sum id fst (fst (insert_bootstrap_api_key stub_bcrypt
     \<lparr>conn_path = [''db-seed.sqlite3''],
      conn_db = [(''apiKey'', \<lparr>columns =
         [Column ''id'' TEXT [PRIMARY_KEY, NOT_NULL],
          Column ''apiKey'' TEXT [NOT_NULL],
          Column ''salt'' TEXT [NOT_NULL],
          Column ''userId'' TEXT [REFERENCES_ON_DELETE_CASCADE ''user'' ''id'']], rows = []\<rparr>)],
      in_transaction = False\<rparr>
     \<lparr>fs = empty_dir, stdout = []\<rparr>))
   = Inr ''halos-bootstrap.halos-bootstrap-rotate-me-on-first-boot-abc123''
   \<and> CHR ''.'' \<notin> set ''halos-bootstrap''
   \<and> CHR ''.'' \<notin> set ''halos-bootstrap-rotate-me-on-first-boot-abc123''
   \<and> split_first (CHR ''.'') ''halos-bootstrap.halos-bootstrap-rotate-me-on-first-boot-abc123''
       = (''halos-bootstrap'', ''halos-bootstrap-rotate-me-on-first-boot-abc123'')"
proof -
  obtain r t where p: "insert_bootstrap_api_key stub_bcrypt
     \<lparr>conn_path = [''db-seed.sqlite3''],
      conn_db = [(''apiKey'', \<lparr>columns =
         [Column ''id'' TEXT [PRIMARY_KEY, NOT_NULL],
          Column ''apiKey'' TEXT [NOT_NULL],
          Column ''salt'' TEXT [NOT_NULL],
          Column ''userId'' TEXT [REFERENCES_ON_DELETE_CASCADE ''user'' ''id'']], rows = []\<rparr>)],
      in_transaction = False\<rparr>
     \<lparr>fs = empty_dir, stdout = []\<rparr> = (r, t)"
    by (rule prod.exhaust)
  then obtain c where r: "r = Inr (''halos-bootstrap.halos-bootstrap-rotate-me-on-first-boot-abc123'', c)"
    by (auto simp: insert_bootstrap_api_key_def sql_defs io_defs stub_bcrypt_def Let_def
        BOOTSTRAP_API_KEY_ID_def BOOTSTRAP_API_KEY_TOKEN_def SERVICE_USER_ID_def)
  from key_string_splits [OF p [unfolded r]] p r show ?thesis
    by (simp add: BOOTSTRAP_API_KEY_ID_def BOOTSTRAP_API_KEY_TOKEN_def)
qed

text \<open>
  C7. When the import of \<^verbatim>\<open>bcrypt\<close> fails, the script prints one line with the installation
  hint to standard error, exits with status 1 and leaves the filesystem as it found it; no
  run in which the import succeeds puts that line on standard error.
\<close>

theorem missing_bcrypt:
  "script None dbo keyo f =
     \<lparr>exit_code = 1, out = [],
      err = [Line ''Error: bcrypt module not found. Install with: pip install bcrypt''],
      files = f\<rparr>
   \<and> err (script (Some bcrypt) dbo keyo f)
       \<noteq> [Line ''Error: bcrypt module not found. Install with: pip install bcrypt'']"
  by (cases "main bcrypt dbo keyo \<lparr>fs = f, stdout = []\<rparr>")
    (auto simp: script_def split: sum.splits)

theorem missing_bcrypt_witness:
  "exit_code (script None None None empty_dir) = 1
   \<and> exit_code (script None None None empty_dir) \<noteq> 0
   \<and> out (script None None None empty_dir) = []
   \<and> err (script None None None empty_dir)
       = [Line ''Error: bcrypt module not found. Install with: pip install bcrypt'']
   \<and> files (script None None None empty_dir) = empty_dir
   \<and> err (script (Some stub_bcrypt) None None empty_dir) = []"
proof -
  have "err (script (Some stub_bcrypt) None None empty_dir) = []"
    using run_valid [OF default_run_valid] by blast
  with missing_bcrypt [of None None empty_dir stub_bcrypt] show ?thesis by simp
qed

text \<open>
  C1. For every invocation with valid writable output paths the run exits with status 0
  and the database holds exactly one row in each of \<open>onboarding\<close>, \<open>user\<close> and \<open>apiKey\<close> and
  exactly two rows in \<open>serverSetting\<close> (\<open>analytics\<close> and \<open>crawlingAndIndexing\<close>), with the
  values below: onboarding finished, the service account with no email and no password,
  the bootstrap key with the hash and the salt of this run, and the two settings.
\<close>

theorem seeded_rows:
  assumes "valid_outputs f (output_db (parse_args dbo keyo)) (output_key (parse_args dbo keyo))"
  shows \<open>exit_code (script (Some bcrypt) dbo keyo f) = 0
    \<and> db_rows (files (script (Some bcrypt) dbo keyo f)) (output_db (parse_args dbo keyo)) ''onboarding'' =
       [[(''id'', SqlText ''init''), (''step'', SqlText ''finish''), (''previousStep'', SqlText ''settings'')]]
    \<and> db_rows (files (script (Some bcrypt) dbo keyo f)) (output_db (parse_args dbo keyo)) ''user'' =
       [[(''id'', SqlText ''halos-service''),
         (''name'', SqlText ''HaLOS Service Account''),
         (''email'', SqlNull),
         (''emailVerified'', SqlNull),
         (''image'', SqlNull),
         (''password'', SqlNull),
         (''salt'', SqlNull),
         (''provider'', SqlText ''credentials''),
         (''homeBoardId'', SqlNull),
         (''mobileHomeBoardId'', SqlNull),
         (''defaultSearchEngineId'', SqlNull),
         (''openSearchInNewTab'', SqlInt 1),
         (''colorScheme'', SqlText ''dark''),
         (''firstDayOfWeek'', SqlInt 1),
         (''pingIconsEnabled'', SqlInt 0)]]
    \<and> db_rows (files (script (Some bcrypt) dbo keyo f)) (output_db (parse_args dbo keyo)) ''apiKey'' =
       [[(''id'', SqlText ''halos-bootstrap''),
         (''apiKey'', SqlText (hashpw bcrypt BOOTSTRAP_API_KEY_TOKEN (gensalt bcrypt 10))),
         (''salt'', SqlText (gensalt bcrypt 10)),
         (''userId'', SqlText ''halos-service'')]]
    \<and> db_rows (files (script (Some bcrypt) dbo keyo f)) (output_db (parse_args dbo keyo)) ''serverSetting'' =
       [[(''settingKey'', SqlText ''analytics''),
         (''value'', SqlText ''{"json": {"enableGeneral": false, "enableWidgetData": false, "enableIntegrationData": false, "enableUserData": false}}'')],
        [(''settingKey'', SqlText ''crawlingAndIndexing''),
         (''value'', SqlText ''{"json": {"noIndex": true, "noFollow": true, "noTranslate": true, "noSiteLinksSearchBox": true}}'')]]\<close>
  using run_valid [OF assms, of bcrypt]
  by (simp add: db_rows_file rows_seeded dumps_analytics dumps_crawling)

theorem seeded_rows_witness:
  \<open>valid_outputs empty_dir [''db-seed.sqlite3''] [''bootstrap-api-key'']
    \<and> exit_code (script (Some stub_bcrypt) None None empty_dir) = 0
    \<and> db_rows (files (script (Some stub_bcrypt) None None empty_dir)) [''db-seed.sqlite3''] ''onboarding'' =
       [[(''id'', SqlText ''init''), (''step'', SqlText ''finish''), (''previousStep'', SqlText ''settings'')]]
    \<and> map (\<lambda>t. length (db_rows (files (script (Some stub_bcrypt) None None empty_dir)) [''db-seed.sqlite3''] t))
          [''onboarding'', ''user'', ''apiKey'', ''serverSetting''] = [1, 1, 1, 2]\<close>
  using seeded_rows [OF default_run_valid, of stub_bcrypt] by simp

text \<open>
  With one row in each of the four tables the statement fails: after a run with the
  default paths in an empty working directory \<open>serverSetting\<close> holds two rows.
\<close>

theorem one_row_each_counterexample:
  "valid_outputs empty_dir [''db-seed.sqlite3''] [''bootstrap-api-key'']
    \<and> exit_code (script (Some stub_bcrypt) None None empty_dir) = 0
    \<and> length (db_rows (files (script (Some stub_bcrypt) None None empty_dir))
           [''db-seed.sqlite3''] ''serverSetting'') = 2
    \<and> length (db_rows (files (script (Some stub_bcrypt) None None empty_dir))
           [''db-seed.sqlite3''] ''serverSetting'') \<noteq> 1"
  using run_valid [OF default_run_valid, of stub_bcrypt]
  by (simp add: db_rows_file rows_seeded)

text \<open>
  C6. After every successful run whose database path and key path are different paths,
  \<open>serverSetting\<close> holds a row \<open>analytics\<close> whose value is the serialisation of a document
  with every analytics flag false, and a row \<open>crawlingAndIndexing\<close> whose value is the
  serialisation of a document with every flag true; the two serialised texts are given.
\<close>

theorem settings_flags:
  assumes "exit_code (script (Some bcrypt) dbo keyo f) = 0"
    and "output_db (parse_args dbo keyo) \<noteq> output_key (parse_args dbo keyo)"
  shows \<open>[(''settingKey'', SqlText ''analytics''),
           (''value'', SqlText (json_dumps (JObject [(''json'', JObject (map (\<lambda>flag. (flag, JBool False))
              [''enableGeneral'', ''enableWidgetData'', ''enableIntegrationData'', ''enableUserData'']))])))]
         \<in> set (db_rows (files (script (Some bcrypt) dbo keyo f)) (output_db (parse_args dbo keyo)) ''serverSetting'')
    \<and> [(''settingKey'', SqlText ''crawlingAndIndexing''),
           (''value'', SqlText (json_dumps (JObject [(''json'', JObject (map (\<lambda>flag. (flag, JBool True))
              [''noIndex'', ''noFollow'', ''noTranslate'', ''noSiteLinksSearchBox'']))])))]
         \<in> set (db_rows (files (script (Some bcrypt) dbo keyo f)) (output_db (parse_args dbo keyo)) ''serverSetting'')
    \<and> json_dumps (JObject [(''json'', JObject (map (\<lambda>flag. (flag, JBool False))
              [''enableGeneral'', ''enableWidgetData'', ''enableIntegrationData'', ''enableUserData'']))])
        = ''{"json": {"enableGeneral": false, "enableWidgetData": false, "enableIntegrationData": false, "enableUserData": false}}''
    \<and> json_dumps (JObject [(''json'', JObject (map (\<lambda>flag. (flag, JBool True))
              [''noIndex'', ''noFollow'', ''noTranslate'', ''noSiteLinksSearchBox'']))])
        = ''{"json": {"noIndex": true, "noFollow": true, "noTranslate": true, "noSiteLinksSearchBox": true}}''\<close>
proof -
  have a: "JObject [(''json'', JObject (map (\<lambda>flag. (flag, JBool False))
              [''enableGeneral'', ''enableWidgetData'', ''enableIntegrationData'', ''enableUserData'']))]
      = analytics"
    by (simp add: analytics_def)
  have c: "JObject [(''json'', JObject (map (\<lambda>flag. (flag, JBool True))
              [''noIndex'', ''noFollow'', ''noTranslate'', ''noSiteLinksSearchBox'']))]
      = crawling"
    by (simp add: crawling_def)
  from run_success [OF assms(1)] assms(2) show ?thesis
    unfolding a c by (simp add: db_rows_file rows_seeded dumps_analytics dumps_crawling)
qed

theorem settings_flags_witness:
  \<open>exit_code (script (Some stub_bcrypt) None None empty_dir) = 0
    \<and> [''db-seed.sqlite3''] \<noteq> [''bootstrap-api-key'']
    \<and> [(''settingKey'', SqlText ''analytics''),
         (''value'', SqlText ''{"json": {"enableGeneral": false, "enableWidgetData": false, "enableIntegrationData": false, "enableUserData": false}}'')]
         \<in> set (db_rows (files (script (Some stub_bcrypt) None None empty_dir)) [''db-seed.sqlite3''] ''serverSetting'')
    \<and> [(''settingKey'', SqlText ''crawlingAndIndexing''),
         (''value'', SqlText ''{"json": {"noIndex": true, "noFollow": true, "noTranslate": true, "noSiteLinksSearchBox": true}}'')]
         \<in> set (db_rows (files (script (Some stub_bcrypt) None None empty_dir)) [''db-seed.sqlite3''] ''serverSetting'')\<close>
proof -
  have e: "exit_code (script (Some stub_bcrypt) None None empty_dir) = 0"
    using run_valid [OF default_run_valid] by blast
  have d: "output_db (parse_args None None) \<noteq> output_key (parse_args None None)" by simp
  from settings_flags [OF e d] e show ?thesis
    by (simp add: encode_string_def escape_char_def)
qed


text \<open>
  Without the condition on the paths the statement fails: given the same path for both
  options, the run exits with status 0 and leaves the key text where the database was,
  so that \<open>serverSetting\<close> has no row at all.
\<close>

theorem settings_flags_counterexample:
  "exit_code (script (Some stub_bcrypt) (Some [''x'']) (Some [''x'']) empty_dir) = 0
   \<and> database_at (files (script (Some stub_bcrypt) (Some [''x'']) (Some [''x'']) empty_dir)) [''x''] = None
   \<and> db_rows (files (script (Some stub_bcrypt) (Some [''x'']) (Some [''x'']) empty_dir)) [''x'']
        ''serverSetting'' = []"
  using same_path_exit run_success [OF same_path_exit]
    same_path_rows [OF same_path_exit, of "''serverSetting''"]
  by (simp add: parse_args_def database_at_def)

text \<open>
  C10. After every successful run each value of \<open>serverSetting\<close> is the serialisation of a
  document with the single top-level key \<open>json\<close>, under which the flags are nested: it is
  one of the two given texts, and none is the serialisation of the flat object of the
  flags. When the database path and the key path are different paths the values are
  exactly these two texts, in this order.
\<close>

theorem settings_shape:
  assumes "exit_code (script (Some bcrypt) dbo keyo f) = 0"
  shows \<open>set (map (\<lambda>r. value_of r ''value'')
        (db_rows (files (script (Some bcrypt) dbo keyo f)) (output_db (parse_args dbo keyo)) ''serverSetting''))
      \<subseteq> {SqlText (json_dumps (JObject [(''json'', JObject
           [(''enableGeneral'', JBool False),
            (''enableWidgetData'', JBool False),
            (''enableIntegrationData'', JBool False),
            (''enableUserData'', JBool False)])])),
         SqlText (json_dumps (JObject [(''json'', JObject
           [(''noIndex'', JBool True),
            (''noFollow'', JBool True),
            (''noTranslate'', JBool True),
            (''noSiteLinksSearchBox'', JBool True)])]))}
    \<and> json_dumps (JObject [(''json'', JObject
           [(''enableGeneral'', JBool False),
            (''enableWidgetData'', JBool False),
            (''enableIntegrationData'', JBool False),
            (''enableUserData'', JBool False)])])
        = ''{"json": {"enableGeneral": false, "enableWidgetData": false, "enableIntegrationData": false, "enableUserData": false}}''
    \<and> json_dumps (JObject [(''json'', JObject
           [(''noIndex'', JBool True),
            (''noFollow'', JBool True),
            (''noTranslate'', JBool True),
            (''noSiteLinksSearchBox'', JBool True)])])
        = ''{"json": {"noIndex": true, "noFollow": true, "noTranslate": true, "noSiteLinksSearchBox": true}}''
    \<and> SqlText (json_dumps (JObject
           [(''enableGeneral'', JBool False),
            (''enableWidgetData'', JBool False),
            (''enableIntegrationData'', JBool False),
            (''enableUserData'', JBool False)]))
        \<notin> set (map (\<lambda>r. value_of r ''value'')
        (db_rows (files (script (Some bcrypt) dbo keyo f)) (output_db (parse_args dbo keyo)) ''serverSetting''))
    \<and> SqlText (json_dumps (JObject
           [(''noIndex'', JBool True),
            (''noFollow'', JBool True),
            (''noTranslate'', JBool True),
            (''noSiteLinksSearchBox'', JBool True)]))
        \<notin> set (map (\<lambda>r. value_of r ''value'')
        (db_rows (files (script (Some bcrypt) dbo keyo f)) (output_db (parse_args dbo keyo)) ''serverSetting''))
    \<and> (output_db (parse_args dbo keyo) \<noteq> output_key (parse_args dbo keyo) \<longrightarrow>
        map (\<lambda>r. value_of r ''value'')
          (db_rows (files (script (Some bcrypt) dbo keyo f)) (output_db (parse_args dbo keyo)) ''serverSetting'')
        = [SqlText ''{"json": {"enableGeneral": false, "enableWidgetData": false, "enableIntegrationData": false, "enableUserData": false}}'',
           SqlText ''{"json": {"noIndex": true, "noFollow": true, "noTranslate": true, "noSiteLinksSearchBox": true}}''])\<close>
proof (cases "output_db (parse_args dbo keyo) = output_key (parse_args dbo keyo)")
  case True
  from same_path_rows [OF assms True, of "''serverSetting''"] True show ?thesis
    by (simp add: encode_string_def escape_char_def)
next
  case False
  from run_success [OF assms] False
  have "map (\<lambda>r. value_of r ''value'')
        (db_rows (files (script (Some bcrypt) dbo keyo f)) (output_db (parse_args dbo keyo)) ''serverSetting'')
      = [SqlText (json_dumps analytics), SqlText (json_dumps crawling)]"
    by (simp add: db_rows_file rows_seeded value_of_def)
  then show ?thesis
    unfolding dumps_analytics dumps_crawling
    by (simp add: encode_string_def escape_char_def)
qed

theorem settings_shape_witness:
  \<open>exit_code (script (Some stub_bcrypt) None None empty_dir) = 0
    \<and> map (\<lambda>r. value_of r ''value'')
        (db_rows (files (script (Some stub_bcrypt) None None empty_dir)) [''db-seed.sqlite3''] ''serverSetting'')
      = [SqlText ''{"json": {"enableGeneral": false, "enableWidgetData": false, "enableIntegrationData": false, "enableUserData": false}}'',
         SqlText ''{"json": {"noIndex": true, "noFollow": true, "noTranslate": true, "noSiteLinksSearchBox": true}}'']\<close>
proof -
  have e: "exit_code (script (Some stub_bcrypt) None None empty_dir) = 0"
    using run_valid [OF default_run_valid] by blast
  from settings_shape [OF e] e show ?thesis
    by (simp add: encode_string_def escape_char_def)
qed

text \<open>
  C8. For every invocation with valid writable output paths where the directory of the
  database path or of the key path does not exist, the run makes the directories (with
  their missing parents) and exits with status 0.
\<close>

theorem parents_created:
  assumes "valid_outputs f (output_db (parse_args dbo keyo)) (output_key (parse_args dbo keyo))"
    and "nodes f (parent (output_db (parse_args dbo keyo))) = None
       \<or> nodes f (parent (output_key (parse_args dbo keyo))) = None"
  shows "exit_code (script (Some bcrypt) dbo keyo f) = 0
    \<and> nodes (files (script (Some bcrypt) dbo keyo f)) (parent (output_db (parse_args dbo keyo))) = Some Dir
    \<and> nodes (files (script (Some bcrypt) dbo keyo f)) (parent (output_key (parse_args dbo keyo))) = Some Dir"
  using run_valid [OF assms(1), of bcrypt] by simp

theorem parents_created_witness:
  "valid_outputs empty_dir [''out'', ''db'', ''seed.sqlite3''] [''out'', ''keys'', ''bootstrap-api-key'']
    \<and> nodes empty_dir [''out'', ''db''] = None
    \<and> nodes empty_dir [''out'', ''keys''] = None
    \<and> exit_code (script (Some stub_bcrypt) (Some [''out'', ''db'', ''seed.sqlite3''])
          (Some [''out'', ''keys'', ''bootstrap-api-key'']) empty_dir) = 0
    \<and> nodes (files (script (Some stub_bcrypt) (Some [''out'', ''db'', ''seed.sqlite3''])
          (Some [''out'', ''keys'', ''bootstrap-api-key'']) empty_dir)) [''out'', ''db''] = Some Dir
    \<and> nodes (files (script (Some stub_bcrypt) (Some [''out'', ''db'', ''seed.sqlite3''])
          (Some [''out'', ''keys'', ''bootstrap-api-key'']) empty_dir)) [''out'', ''keys''] = Some Dir"
proof -
  have v: "valid_outputs empty_dir
      (output_db (parse_args (Some [''out'', ''db'', ''seed.sqlite3'']) (Some [''out'', ''keys'', ''bootstrap-api-key''])))
      (output_key (parse_args (Some [''out'', ''db'', ''seed.sqlite3'']) (Some [''out'', ''keys'', ''bootstrap-api-key''])))"
    by (simp add: parse_args_def valid_outputs_def db_writable_def key_writable_def empty_dir_def
        parent_def can_mkdir.simps)
  have n: "nodes empty_dir (parent (output_db (parse_args (Some [''out'', ''db'', ''seed.sqlite3''])
        (Some [''out'', ''keys'', ''bootstrap-api-key''])))) = None
     \<or> nodes empty_dir (parent (output_key (parse_args (Some [''out'', ''db'', ''seed.sqlite3''])
        (Some [''out'', ''keys'', ''bootstrap-api-key''])))) = None"
    by (simp add: parse_args_def empty_dir_def parent_def)
  from parents_created [OF v n, of stub_bcrypt] v n show ?thesis
    by (simp add: parse_args_def parent_def empty_dir_def)
qed


text \<open>
  C4. When the database path is not writable (its directory cannot be made, or is there
  and read-only, or the path is a directory), the run exits with a status other than 0
  and does not write the key file: what is at the key path is what was there before (or a
  directory the run made on the way to the database), and the run never announces the
  writing of the key.
\<close>

theorem unwritable_database:
  assumes "\<not> db_writable f (output_db (parse_args dbo keyo))"
  shows "exit_code (script (Some bcrypt) dbo keyo f) \<noteq> 0
    \<and> (nodes (files (script (Some bcrypt) dbo keyo f)) (output_key (parse_args dbo keyo))
          = nodes f (output_key (parse_args dbo keyo))
        \<or> nodes (files (script (Some bcrypt) dbo keyo f)) (output_key (parse_args dbo keyo)) = Some Dir)
    \<and> ''Writing bootstrap API key to: '' @ str_path (output_key (parse_args dbo keyo))
        \<notin> set (out (script (Some bcrypt) dbo keyo f))"
proof -
  from assms have "\<not> db_writable (fs \<lparr>fs = f, stdout = []\<rparr>) (output_db (parse_args dbo keyo))"
    by simp
  from main_fails_unwritable [OF this refl refl, of bcrypt]
  obtain e s' where m: "main bcrypt dbo keyo \<lparr>fs = f, stdout = []\<rparr> = (Inl e, s')"
    and k: "\<forall>x. nodes (fs s') x = nodes f x \<or> (nodes f x = None \<and> nodes (fs s') x = Some Dir)"
    and o: "stdout s' = [] \<or> stdout s' = [''Creating seed database: '' @ str_path (output_db (parse_args dbo keyo))]"
    by auto
  from k have "nodes (fs s') (output_key (parse_args dbo keyo)) = nodes f (output_key (parse_args dbo keyo))
      \<or> nodes (fs s') (output_key (parse_args dbo keyo)) = Some Dir" by blast
  with m o show ?thesis by (auto simp: script_def)
qed

theorem unwritable_database_witness:
  "\<not> db_writable (empty_dir\<lparr>readonly := {[]}\<rparr>) [''db-seed.sqlite3'']
    \<and> exit_code (script (Some stub_bcrypt) None None (empty_dir\<lparr>readonly := {[]}\<rparr>)) \<noteq> 0
    \<and> nodes (files (script (Some stub_bcrypt) None None (empty_dir\<lparr>readonly := {[]}\<rparr>)))
         [''bootstrap-api-key''] \<noteq> Some (Reg (TextFile
           (''halos-bootstrap.halos-bootstrap-rotate-me-on-first-boot-abc123'' @ [CHR 0x0A])))
    \<and> ''Writing bootstrap API key to: bootstrap-api-key''
         \<notin> set (out (script (Some stub_bcrypt) None None (empty_dir\<lparr>readonly := {[]}\<rparr>)))"
proof -
  have n: "\<not> db_writable (empty_dir\<lparr>readonly := {[]}\<rparr>) (output_db (parse_args None None))"
    by (simp add: db_writable_def empty_dir_def parent_def)
  from unwritable_database [OF n, of stub_bcrypt] n show ?thesis
    by (auto simp: empty_dir_def str_path_def)
qed


text \<open>
  C5. After a run with valid writable output paths, a second run on the same paths (with
  whatever salt it draws) also exits with status 0. It finds the database file of the
  first run, and the statements of \<open>main\<close> up to the removal leave no file at the database
  path before the new database is made. The database it leaves is the one a fresh run
  with the same salt leaves, and it equals the database of the first run, schema and
  rows, once salt and hash are blanked in both.
\<close>

theorem rerun:
  assumes v: "valid_outputs f (output_db (parse_args dbo keyo)) (output_key (parse_args dbo keyo))"
  shows "exit_code (script (Some bcrypt) dbo keyo f) = 0
    \<and> exit_code (script (Some bcrypt') dbo keyo (files (script (Some bcrypt) dbo keyo f))) = 0
    \<and> database_at (files (script (Some bcrypt) dbo keyo f)) (output_db (parse_args dbo keyo)) \<noteq> None
    \<and> (\<exists>s3. bind (mkdir_parents (parent (output_db (parse_args dbo keyo)))) (\<lambda>u.
           bind (mkdir_parents (parent (output_key (parse_args dbo keyo)))) (\<lambda>u.
           bind (exists (output_db (parse_args dbo keyo))) (\<lambda>present.
           if present then unlink (output_db (parse_args dbo keyo)) else return ())))
           \<lparr>fs = files (script (Some bcrypt) dbo keyo f), stdout = []\<rparr> = (Inr (), s3)
         \<and> nodes (fs s3) (output_db (parse_args dbo keyo)) = None)
    \<and> database_at (files (script (Some bcrypt') dbo keyo (files (script (Some bcrypt) dbo keyo f))))
         (output_db (parse_args dbo keyo))
       = database_at (files (script (Some bcrypt') dbo keyo f)) (output_db (parse_args dbo keyo))
    \<and> map_option modulo_salt_hash
         (database_at (files (script (Some bcrypt') dbo keyo (files (script (Some bcrypt) dbo keyo f))))
           (output_db (parse_args dbo keyo)))
       = map_option modulo_salt_hash
         (database_at (files (script (Some bcrypt) dbo keyo f)) (output_db (parse_args dbo keyo)))"
proof -
  let ?f1 = "files (script (Some bcrypt) dbo keyo f)"
  note r1 = run_valid [OF v, of bcrypt]
  note v1 = valid_after_run [OF v, of bcrypt]
  note r2 = run_valid [OF v1, of bcrypt']
  note r2' = run_valid [OF v, of bcrypt']
  from r2 have "exit_code (script (Some bcrypt') dbo keyo ?f1) = 0" by blast
  from exit_0_main [OF this]
  obtain s' where "main bcrypt' dbo keyo \<lparr>fs = ?f1, stdout = []\<rparr> = (Inr 0, s')" by blast
  from main_removes_first [OF this refl refl]
  have "\<exists>s3. bind (mkdir_parents (parent (output_db (parse_args dbo keyo)))) (\<lambda>u.
           bind (mkdir_parents (parent (output_key (parse_args dbo keyo)))) (\<lambda>u.
           bind (exists (output_db (parse_args dbo keyo))) (\<lambda>present.
           if present then unlink (output_db (parse_args dbo keyo)) else return ())))
           \<lparr>fs = ?f1, stdout = []\<rparr> = (Inr (), s3)
         \<and> nodes (fs s3) (output_db (parse_args dbo keyo)) = None" .
  with r1 r2 r2' show ?thesis
    by (simp add: database_at_file modulo_seeded)
qed

theorem rerun_witness:
  "valid_outputs empty_dir [''db-seed.sqlite3''] [''bootstrap-api-key'']
    \<and> exit_code (script (Some stub_bcrypt) None None empty_dir) = 0
    \<and> exit_code (script (Some (stub_bcrypt\<lparr>gensalt := (\<lambda>rounds. ''$2b$10$anotheranotheranother'')\<rparr>))
         None None (files (script (Some stub_bcrypt) None None empty_dir))) = 0
    \<and> database_at (files (script (Some stub_bcrypt) None None empty_dir)) [''db-seed.sqlite3''] \<noteq> None
    \<and> map_option modulo_salt_hash
         (database_at (files (script (Some (stub_bcrypt\<lparr>gensalt := (\<lambda>rounds. ''$2b$10$anotheranotheranother'')\<rparr>))
            None None (files (script (Some stub_bcrypt) None None empty_dir)))) [''db-seed.sqlite3''])
       = map_option modulo_salt_hash
         (database_at (files (script (Some stub_bcrypt) None None empty_dir)) [''db-seed.sqlite3''])"
proof -
  have v: "valid_outputs empty_dir [''db-seed.sqlite3''] [''bootstrap-api-key'']" by simp
  note r = rerun [OF default_run_valid, of stub_bcrypt
      "stub_bcrypt\<lparr>gensalt := (\<lambda>rounds. ''$2b$10$anotheranotheranother'')\<rparr>", unfolded defaults]
  from r have 1: "exit_code (script (Some stub_bcrypt) None None empty_dir) = 0" by (rule conjunct1)
  from r have 2: "exit_code (script (Some (stub_bcrypt\<lparr>gensalt := (\<lambda>rounds. ''$2b$10$anotheranotheranother'')\<rparr>))
         None None (files (script (Some stub_bcrypt) None None empty_dir))) = 0"
    by (rule conjunct2 [THEN conjunct1])
  from r have 3: "database_at (files (script (Some stub_bcrypt) None None empty_dir)) [''db-seed.sqlite3''] \<noteq> None"
    by (rule conjunct2 [THEN conjunct2, THEN conjunct1])
  from r have 4: "map_option modulo_salt_hash
         (database_at (files (script (Some (stub_bcrypt\<lparr>gensalt := (\<lambda>rounds. ''$2b$10$anotheranotheranother'')\<rparr>))
            None None (files (script (Some stub_bcrypt) None None empty_dir)))) [''db-seed.sqlite3''])
       = map_option modulo_salt_hash
         (database_at (files (script (Some stub_bcrypt) None None empty_dir)) [''db-seed.sqlite3''])"
    by (rule conjunct2 [THEN conjunct2, THEN conjunct2, THEN conjunct2, THEN conjunct2])
  from v 1 2 3 4 show ?thesis by (intro conjI)
qed


end
